theory Spec2Isabelle
  imports Main "HOL-Library.AList" "HOL-Library.Word"
begin

unbundle bit_operations_syntax

section \<open>JavaScript strings\<close>

text \<open>
  A string is a list of characters. The functions below are the methods of
  \<^verbatim>\<open>String.prototype\<close> that the sources call, with the results the language
  gives: \<^verbatim>\<open>indexOf\<close> and \<^verbatim>\<open>lastIndexOf\<close> answer \<open>-1\<close> when the character does
  not occur, \<^verbatim>\<open>substring\<close> clamps both indices to the string and swaps them when
  they are out of order, \<^verbatim>\<open>split\<close> always yields at least one piece, and
  \<^verbatim>\<open>charAt\<close> of an empty string is the empty string. Case conversion is the
  one of the ASCII letters; other characters are left alone.
\<close>

fun indexOf_from :: "string \<Rightarrow> char \<Rightarrow> int \<Rightarrow> int" where
  "indexOf_from [] c i = - 1"
| "indexOf_from (x # xs) c i = (if x = c then i else indexOf_from xs c (i + 1))"

definition indexOf :: "string \<Rightarrow> char \<Rightarrow> int" where
  "indexOf s c = indexOf_from s c 0"

fun lastIndexOf_from :: "string \<Rightarrow> char \<Rightarrow> int \<Rightarrow> int \<Rightarrow> int" where
  "lastIndexOf_from [] c i found = found"
| "lastIndexOf_from (x # xs) c i found =
     lastIndexOf_from xs c (i + 1) (if x = c then i else found)"

definition lastIndexOf :: "string \<Rightarrow> char \<Rightarrow> int" where
  "lastIndexOf s c = lastIndexOf_from s c 0 (- 1)"

definition clamp_index :: "string \<Rightarrow> int \<Rightarrow> nat" where
  "clamp_index s i = (if i < 0 then 0 else min (nat i) (length s))"

definition substring :: "string \<Rightarrow> int \<Rightarrow> int \<Rightarrow> string" where
  "substring s start end =
     (let a = clamp_index s start; b = clamp_index s end;
          lo = min a b; hi = max a b
      in take (hi - lo) (drop lo s))"

definition substring_from :: "string \<Rightarrow> int \<Rightarrow> string" where
  "substring_from s start = substring s start (int (length s))"

fun startsWith :: "string \<Rightarrow> string \<Rightarrow> bool" where
  "startsWith s [] = True"
| "startsWith [] (p # ps) = False"
| "startsWith (x # xs) (p # ps) = (x = p \<and> startsWith xs ps)"

fun split :: "string \<Rightarrow> char \<Rightarrow> string list" where
  "split [] d = [[]]"
| "split (x # xs) d =
     (if x = d then [] # split xs d
      else (case split xs d of [] \<Rightarrow> [[x]] | w # ws \<Rightarrow> (x # w) # ws))"

definition toLowerCase_char :: "char \<Rightarrow> char" where
  "toLowerCase_char c =
     (let n = (of_char c :: nat) in if 65 \<le> n \<and> n \<le> 90 then char_of (n + 32) else c)"

definition toUpperCase_char :: "char \<Rightarrow> char" where
  "toUpperCase_char c =
     (let n = (of_char c :: nat) in if 97 \<le> n \<and> n \<le> 122 then char_of (n - 32) else c)"

definition toLowerCase :: "string \<Rightarrow> string" where
  "toLowerCase s = map toLowerCase_char s"

definition toUpperCase :: "string \<Rightarrow> string" where
  "toUpperCase s = map toUpperCase_char s"

definition charAt0 :: "string \<Rightarrow> string" where
  "charAt0 s = take 1 s"

section \<open>Option names (lsptoolshost/OptionNameConverter.ts)\<close>

text \<open>
  \<^verbatim>\<open>assert(cond, message)\<close> of \<^verbatim>\<open>node:assert\<close> throws an \<^verbatim>\<open>AssertionError\<close> carrying
  the message; the converter returns a string or \<^verbatim>\<open>null\<close> otherwise. So its result
  is \<open>Inl\<close> of the assertion failure, \<open>Inr None\<close> for \<^verbatim>\<open>null\<close>, or \<open>Inr (Some name)\<close>.
\<close>

datatype assertion_error = AssertionError string

definition capitalize :: "string \<Rightarrow> string" where
  "capitalize inputString = toUpperCase (charAt0 inputString) @ substring_from inputString 1"

definition convertToCamelCase :: "string \<Rightarrow> char \<Rightarrow> string" where
  "convertToCamelCase inputString delimiter =
     (let words = map toLowerCase (split inputString delimiter)
      in if length words \<le> 1 then toLowerCase inputString
         else (case words of
                 [] \<Rightarrow> toLowerCase inputString
               | firstWord # rest \<Rightarrow> firstWord @ concat (map capitalize rest)))"

fun getPrefix :: "string \<Rightarrow> string list \<Rightarrow> string" where
  "getPrefix section [] = []"
| "getPrefix section (possiblePrefix # prefixes) =
     (if startsWith section possiblePrefix then possiblePrefix
      else getPrefix section prefixes)"

definition convertServerOptionNameToClientConfigurationName ::
    "string \<Rightarrow> assertion_error + string option" where
  "convertServerOptionNameToClientConfigurationName section =
     (let languageNameIndex = indexOf section (CHR ''|'')
      in if languageNameIndex = - 1 \<or> substring section 0 languageNameIndex = ''csharp'' then
           (let lastDotIndex = lastIndexOf section (CHR ''.'')
            in if lastDotIndex = - 1
               then Inl (AssertionError (''There is no . in '' @ section @ ''.''))
               else
                 (let optionName = substring_from section (lastDotIndex + 1);
                      startIndex = (if languageNameIndex = - 1 then 0 else languageNameIndex + 1);
                      optionGroupName = substring section startIndex lastDotIndex;
                      prefixes = [''dotnet'', ''csharp''];
                      optionNamePrefix = getPrefix optionName prefixes;
                      featureName =
                        (if optionNamePrefix = [] then optionName
                         else substring_from optionName (int (length optionNamePrefix) + 1));
                      camelCaseGroupName = convertToCamelCase optionGroupName (CHR ''_'');
                      camelCaseFeatureName = convertToCamelCase featureName (CHR ''_'')
                  in Inr (Some
                       (if optionNamePrefix = []
                        then camelCaseGroupName @ ''.'' @ camelCaseFeatureName
                        else convertToCamelCase optionNamePrefix (CHR ''_'') @ ''.''
                               @ camelCaseGroupName @ ''.'' @ camelCaseFeatureName))))
         else Inr None)"

text \<open>The language prefix of a section name: the part before the first \<open>|\<close>, when there is one.\<close>

definition languagePrefix :: "string \<Rightarrow> string option" where
  "languagePrefix section =
     (if CHR ''|'' \<in> set section then Some (takeWhile (\<lambda>c. c \<noteq> CHR ''|'') section) else None)"

section \<open>Folding ranges (features/structureProvider.ts)\<close>

datatype FoldingRangeKind = Comment | Imports | Region

record Point =
  Line :: int
  Column :: int

record Range =
  Start :: Point
  End :: Point

record CodeFoldingBlock =
  Range :: Range
  Kind :: string

record BlockStructureResponse =
  Spans :: "CodeFoldingBlock list"

record FoldingRange =
  start :: int
  "end" :: int
  kind :: "FoldingRangeKind option"

definition GetType :: "string \<Rightarrow> FoldingRangeKind option" where
  "GetType type =
     (if type = ''Comment'' then Some Comment
      else if type = ''Imports'' then Some Imports
      else if type = ''Region'' then Some Region
      else None)"

definition new_FoldingRange :: "int \<Rightarrow> int \<Rightarrow> FoldingRangeKind option \<Rightarrow> FoldingRange" where
  "new_FoldingRange s e k = \<lparr>start = s, end = e, kind = k\<rparr>"

text \<open>The loop of \<^verbatim>\<open>provideFoldingRanges\<close>: one \<^verbatim>\<open>push\<close> for each member of the response.\<close>

fun pushRanges :: "FoldingRange list \<Rightarrow> CodeFoldingBlock list \<Rightarrow> FoldingRange list" where
  "pushRanges ranges [] = ranges"
| "pushRanges ranges (member # members) =
     pushRanges
       (ranges @ [new_FoldingRange (Line (Start (Range member))) (Line (End (Range member)))
                    (GetType (Kind member))])
       members"

text \<open>
  The request to the backend either answers with a response or fails (the awaited
  promise rejects); a failure is caught and gives the empty list.
\<close>

definition provideFoldingRanges :: "'e + BlockStructureResponse \<Rightarrow> FoldingRange list" where
  "provideFoldingRanges blockStructure =
     (case blockStructure of
        Inr response \<Rightarrow> pushRanges [] (Spans response)
      | Inl error \<Rightarrow> [])"

text \<open>
  The folding range that the specification asks for a span: the span's own line numbers,
  and the kind named by the span's kind string, if it is one of the three known names.
\<close>

definition spec_foldingRange :: "CodeFoldingBlock \<Rightarrow> FoldingRange" where
  "spec_foldingRange member =
     \<lparr>start = Line (Start (Range member)), end = Line (End (Range member)),
      kind = (if Kind member = ''Comment'' then Some Comment
              else if Kind member = ''Imports'' then Some Imports
              else if Kind member = ''Region'' then Some Region
              else None)\<rparr>"

section \<open>JavaScript values\<close>

text \<open>
  A debug configuration is an open-ended object: string keys, values of any kind. The
  values are those of JSON together with \<^verbatim>\<open>undefined\<close>, which a property holds after
  an assignment such as \<^verbatim>\<open>cwd = folder?.uri.fsPath\<close> with no folder. An object is the
  list of its own properties in insertion order; a property read goes through
  \<open>map_of\<close>, an assignment through \<open>AList.update\<close> (in place for an existing key, at
  the end for a new one), \<^verbatim>\<open>delete\<close> through \<open>AList.delete\<close>. Numbers are the
  integer-valued ones. A configuration handed to the provider has the prototype of every
  object literal; where the code calls an inherited method on it or assigns to
  \<^verbatim>\<open>__proto__\<close> (the settings merge does both), the prototype is part of the model.
\<close>

datatype jsvalue =
    JUndefined
  | JNull
  | JBool bool
  | JNumber int
  | JString string
  | JArray "jsvalue list"
  | JObject "(string \<times> jsvalue) list"

type_synonym config = "(string \<times> jsvalue) list"

datatype exception =
    TypeError
  | SyntaxError
  | Thrown string
  | Error string
  | Rejected string

text \<open>Truthiness, as \<^verbatim>\<open>!x\<close> and \<^verbatim>\<open>if (x)\<close> read a value.\<close>

fun truthy :: "jsvalue \<Rightarrow> bool" where
  "truthy JUndefined = False"
| "truthy JNull = False"
| "truthy (JBool b) = b"
| "truthy (JNumber n) = (n \<noteq> 0)"
| "truthy (JString s) = (s \<noteq> [])"
| "truthy (JArray xs) = True"
| "truthy (JObject kvs) = True"

fun typeof :: "jsvalue \<Rightarrow> string" where
  "typeof JUndefined = ''undefined''"
| "typeof JNull = ''object''"
| "typeof (JBool b) = ''boolean''"
| "typeof (JNumber n) = ''number''"
| "typeof (JString s) = ''string''"
| "typeof (JArray xs) = ''object''"
| "typeof (JObject kvs) = ''object''"

text \<open>
  The decimal notation of an integer, as \<^verbatim>\<open>String(n)\<close> writes it and as the index keys of
  arrays and strings are named.
\<close>

definition decimal_digit :: "nat \<Rightarrow> char" where
  "decimal_digit d = char_of (of_char (CHR ''0'') + d)"

function decimal :: "nat \<Rightarrow> string" where
  "decimal n =
     (if n div 10 = 0 then [decimal_digit n]
      else decimal (n div 10) @ [decimal_digit (n mod 10)])"
  by pat_completeness auto
termination
  by (relation "measure (\<lambda>n. n)") auto

definition Number_toString :: "int \<Rightarrow> string" where
  "Number_toString n = (if 0 \<le> n then decimal (nat n) else CHR ''-'' # decimal (nat (- n)))"

text \<open>
  \<^verbatim>\<open>String(v)\<close>, as a template literal and the comparison \<^verbatim>\<open>==\<close> with a string render a
  value: an array is its elements joined by commas, with \<^verbatim>\<open>null\<close> and \<^verbatim>\<open>undefined\<close>
  elements rendered empty, and a plain object is \<^verbatim>\<open>[object Object]\<close>.
\<close>

fun js_to_string :: "jsvalue \<Rightarrow> string"
  and js_join :: "jsvalue list \<Rightarrow> string" where
  "js_to_string JUndefined = ''undefined''"
| "js_to_string JNull = ''null''"
| "js_to_string (JBool b) = (if b then ''true'' else ''false'')"
| "js_to_string (JNumber n) = Number_toString n"
| "js_to_string (JString s) = s"
| "js_to_string (JArray xs) = js_join xs"
| "js_to_string (JObject kvs) = ''[object Object]''"
| "js_join [] = []"
| "js_join (x # xs) =
     (if x = JUndefined \<or> x = JNull then [] else js_to_string x)
       @ (if xs = [] then [] else '','' @ js_join xs)"

text \<open>
  \<^verbatim>\<open>Number(s)\<close> for a string: surrounding white space is dropped, the empty string is
  \<open>0\<close>, a decimal numeral with an optional sign is its value, and anything else is
  \<^verbatim>\<open>NaN\<close> (\<open>None\<close>). Numerals that do not denote an integer in decimal notation
  are outside the integer-valued numbers modelled here.
\<close>

definition is_space :: "char \<Rightarrow> bool" where
  "is_space c = ((of_char c :: nat) \<in> {9, 10, 11, 12, 13, 32})"

definition is_digit :: "char \<Rightarrow> bool" where
  "is_digit c = (48 \<le> (of_char c :: nat) \<and> (of_char c :: nat) \<le> 57)"

fun digits_value :: "string \<Rightarrow> nat \<Rightarrow> nat" where
  "digits_value [] acc = acc"
| "digits_value (c # cs) acc = digits_value cs (10 * acc + ((of_char c :: nat) - 48))"

definition trim :: "string \<Rightarrow> string" where
  "trim s = rev (dropWhile is_space (rev (dropWhile is_space s)))"

definition unsigned_numeral :: "string \<Rightarrow> int option" where
  "unsigned_numeral ds =
     (if ds \<noteq> [] \<and> list_all is_digit ds then Some (int (digits_value ds 0)) else None)"

definition StringToNumber :: "string \<Rightarrow> int option" where
  "StringToNumber s =
     (case trim s of
        [] \<Rightarrow> Some 0
      | c # cs \<Rightarrow>
          (if c = CHR ''-'' then map_option uminus (unsigned_numeral cs)
           else if c = CHR ''+'' then unsigned_numeral cs
           else unsigned_numeral (c # cs)))"

fun ToNumber :: "jsvalue \<Rightarrow> int option" where
  "ToNumber JUndefined = None"
| "ToNumber JNull = Some 0"
| "ToNumber (JBool b) = Some (if b then 1 else 0)"
| "ToNumber (JNumber n) = Some n"
| "ToNumber (JString s) = StringToNumber s"
| "ToNumber (JArray xs) = StringToNumber (js_to_string (JArray xs))"
| "ToNumber (JObject kvs) = StringToNumber (js_to_string (JObject kvs))"

text \<open>\<^verbatim>\<open>v > 0\<close>: the comparison is numeric, and false for \<^verbatim>\<open>NaN\<close>.\<close>

definition js_gt_zero :: "jsvalue \<Rightarrow> bool" where
  "js_gt_zero v = (case ToNumber v of None \<Rightarrow> False | Some n \<Rightarrow> n > 0)"

text \<open>\<^verbatim>\<open>v == s\<close> for a string \<open>s\<close> (the abstract equality of the language).\<close>

fun js_loose_eq_string :: "jsvalue \<Rightarrow> string \<Rightarrow> bool" where
  "js_loose_eq_string JUndefined s = False"
| "js_loose_eq_string JNull s = False"
| "js_loose_eq_string (JBool b) s = (StringToNumber s = Some (if b then 1 else 0))"
| "js_loose_eq_string (JNumber n) s = (StringToNumber s = Some n)"
| "js_loose_eq_string (JString t) s = (t = s)"
| "js_loose_eq_string (JArray xs) s = (js_to_string (JArray xs) = s)"
| "js_loose_eq_string (JObject kvs) s = (js_to_string (JObject kvs) = s)"

text \<open>\<^verbatim>\<open>a & b\<close>: both operands go through \<^verbatim>\<open>ToInt32\<close>, and the result is a signed 32-bit integer.\<close>

definition js_bitand :: "int \<Rightarrow> int \<Rightarrow> int" where
  "js_bitand a b = sint ((word_of_int a :: 32 word) AND (word_of_int b :: 32 word))"

text \<open>
  The own enumerable properties of a value, in the order of \<^verbatim>\<open>Object.keys\<close>: those of an
  object, the indices of an array or of a string, none for a boolean or a number.
  \<^verbatim>\<open>Object.keys\<close> of \<^verbatim>\<open>null\<close> or \<^verbatim>\<open>undefined\<close> throws a \<^verbatim>\<open>TypeError\<close>.
\<close>

fun own_properties :: "jsvalue \<Rightarrow> (string \<times> jsvalue) list" where
  "own_properties (JObject kvs) = kvs"
| "own_properties (JArray xs) = zip (map decimal [0..<length xs]) xs"
| "own_properties (JString s) = zip (map decimal [0..<length s]) (map (\<lambda>c. JString [c]) s)"
| "own_properties v = []"

definition Object_keys :: "jsvalue \<Rightarrow> exception + string list" where
  "Object_keys v =
     (if v = JNull \<or> v = JUndefined then Inl TypeError else Inr (map fst (own_properties v)))"

definition js_index :: "jsvalue \<Rightarrow> string \<Rightarrow> jsvalue" where
  "js_index v key = (case map_of (own_properties v) key of None \<Rightarrow> JUndefined | Some x \<Rightarrow> x)"

text \<open>The operations on the configuration object itself.\<close>

definition js_get :: "config \<Rightarrow> string \<Rightarrow> jsvalue" where
  "js_get obj key = (case map_of obj key of None \<Rightarrow> JUndefined | Some v \<Rightarrow> v)"

definition js_set :: "config \<Rightarrow> string \<Rightarrow> jsvalue \<Rightarrow> config" where
  "js_set obj key v = AList.update key v obj"

definition js_delete :: "config \<Rightarrow> string \<Rightarrow> config" where
  "js_delete obj key = AList.delete key obj"

text \<open>
  The prototype of an object: \<^verbatim>\<open>Object.prototype\<close>, with which every object literal
  starts; none; or a value that an assignment to \<^verbatim>\<open>__proto__\<close> has put in its place (an
  object or an array made by \<^verbatim>\<open>JSON.parse\<close>, whose own prototype is the built-in one).
\<close>

datatype prototype = ObjectPrototype | NullPrototype | Prototype jsvalue

definition isOwnProperty :: "config \<Rightarrow> string \<Rightarrow> bool" where
  "isOwnProperty obj key = (map_of obj key \<noteq> None)"

text \<open>
  \<^verbatim>\<open>obj.hasOwnProperty(key)\<close>: the method is looked up on the object, then along its
  prototypes. An own property of that name, or one of a prototype put in place, holds a
  value that is no function, and without a prototype there is no such method: the call
  throws a \<^verbatim>\<open>TypeError\<close>. The built-in method tests the own properties.
\<close>

definition hasOwnProperty :: "config \<Rightarrow> prototype \<Rightarrow> string \<Rightarrow> exception + bool" where
  "hasOwnProperty obj proto key =
     (if isOwnProperty obj ''hasOwnProperty'' then Inl TypeError
      else
        (case proto of
           ObjectPrototype \<Rightarrow> Inr (isOwnProperty obj key)
         | NullPrototype \<Rightarrow> Inl TypeError
         | Prototype p \<Rightarrow>
             if map_of (own_properties p) ''hasOwnProperty'' \<noteq> None then Inl TypeError
             else Inr (isOwnProperty obj key)))"

text \<open>
  \<^verbatim>\<open>obj[key] = v\<close>. For the key \<^verbatim>\<open>__proto__\<close>, when neither the object nor a prototype
  put in place has a property of that name, the assignment runs the setter inherited
  from \<^verbatim>\<open>Object.prototype\<close>: it adds no property, and replaces the prototype when the
  value is an object, an array or \<^verbatim>\<open>null\<close>. Every other assignment writes an own
  property.
\<close>

definition inheritsProtoSetter :: "config \<Rightarrow> prototype \<Rightarrow> bool" where
  "inheritsProtoSetter obj proto =
     (\<not> isOwnProperty obj ''__proto__''
      \<and> (case proto of
            ObjectPrototype \<Rightarrow> True
          | NullPrototype \<Rightarrow> False
          | Prototype p \<Rightarrow> map_of (own_properties p) ''__proto__'' = None))"

definition js_assign :: "config \<Rightarrow> prototype \<Rightarrow> string \<Rightarrow> jsvalue \<Rightarrow> config \<times> prototype" where
  "js_assign obj proto key v =
     (if key = ''__proto__'' \<and> inheritsProtoSetter obj proto
      then
        (case v of
           JObject kvs \<Rightarrow> (obj, Prototype v)
         | JArray xs \<Rightarrow> (obj, Prototype v)
         | JNull \<Rightarrow> (obj, NullPrototype)
         | _ \<Rightarrow> (obj, proto))
      else (js_set obj key v, proto))"

text \<open>
  \<^verbatim>\<open>v.length\<close> for a value that is not \<^verbatim>\<open>undefined\<close>: reading a property of \<^verbatim>\<open>null\<close>
  throws, a string or an array has its length, a boolean or a number has no such
  property, and an object has it when it is one of its own properties.
\<close>

fun js_length :: "jsvalue \<Rightarrow> exception + jsvalue" where
  "js_length JUndefined = Inl TypeError"
| "js_length JNull = Inl TypeError"
| "js_length (JBool b) = Inr JUndefined"
| "js_length (JNumber n) = Inr JUndefined"
| "js_length (JString s) = Inr (JNumber (int (length s)))"
| "js_length (JArray xs) = Inr (JNumber (int (length xs)))"
| "js_length (JObject kvs) = Inr (js_get kvs ''length'')"

text \<open>
  \<^verbatim>\<open>JSON.parse(JSON.stringify(v))\<close>: a deep copy in which a property holding
  \<^verbatim>\<open>undefined\<close> disappears and an \<^verbatim>\<open>undefined\<close> array element becomes \<^verbatim>\<open>null\<close>;
  \<^verbatim>\<open>JSON.stringify(undefined)\<close> is \<^verbatim>\<open>undefined\<close>, which \<^verbatim>\<open>JSON.parse\<close> rejects with a
  \<^verbatim>\<open>SyntaxError\<close>.
\<close>

fun JSON_copy :: "jsvalue \<Rightarrow> jsvalue"
  and JSON_copy_elements :: "jsvalue list \<Rightarrow> jsvalue list"
  and JSON_copy_properties :: "(string \<times> jsvalue) list \<Rightarrow> (string \<times> jsvalue) list" where
  "JSON_copy (JArray xs) = JArray (JSON_copy_elements xs)"
| "JSON_copy (JObject kvs) = JObject (JSON_copy_properties kvs)"
| "JSON_copy JUndefined = JUndefined"
| "JSON_copy JNull = JNull"
| "JSON_copy (JBool b) = JBool b"
| "JSON_copy (JNumber n) = JNumber n"
| "JSON_copy (JString s) = JString s"
| "JSON_copy_elements [] = []"
| "JSON_copy_elements (x # xs) =
     (if x = JUndefined then JNull else JSON_copy x) # JSON_copy_elements xs"
| "JSON_copy_properties [] = []"
| "JSON_copy_properties ((k, v) # kvs) =
     (if v = JUndefined then JSON_copy_properties kvs
      else (k, JSON_copy v) # JSON_copy_properties kvs)"

definition JSON_parse_stringify :: "jsvalue \<Rightarrow> exception + jsvalue" where
  "JSON_parse_stringify v = (if v = JUndefined then Inl SyntaxError else Inr (JSON_copy v))"

text \<open>
  The values that JSON can write: every value but \<^verbatim>\<open>undefined\<close>, at any depth. Settings
  read from a settings file are of this kind.
\<close>

fun is_json :: "jsvalue \<Rightarrow> bool"
  and is_json_elements :: "jsvalue list \<Rightarrow> bool"
  and is_json_properties :: "(string \<times> jsvalue) list \<Rightarrow> bool" where
  "is_json JUndefined = False"
| "is_json (JArray xs) = is_json_elements xs"
| "is_json (JObject kvs) = is_json_properties kvs"
| "is_json v = True"
| "is_json_elements [] = True"
| "is_json_elements (x # xs) = (is_json x \<and> is_json_elements xs)"
| "is_json_properties [] = True"
| "is_json_properties ((k, v) # kvs) = (is_json v \<and> is_json_properties kvs)"

section \<open>Debug configurations (shared/configurationProvider.ts)\<close>

text \<open>
  What the provider reads from outside the configuration: the platform, the editor
  session (\<^verbatim>\<open>vscode.env\<close>), the settings section \<^verbatim>\<open>csharp.debug\<close>, whether the C# Dev Kit
  extension is installed, the brokered service pipe name, the path of the \<^verbatim>\<open>dotnet\<close>
  tool, and the answers of the code that is called but lives in other modules: the
  two process pickers (an awaited promise: a selected process, \<^verbatim>\<open>undefined\<close>, or a
  rejection) and the parser of environment files (a parsed file, or an exception, given
  by its rendering as a string).
\<close>

record PlatformInformation =
  isLinux :: bool
  isMacOS :: bool
  architecture :: string

datatype UIKind = Desktop | Web

record AttachItem =
  id' :: string
  flags :: int

record ParsedEnvironmentFile =
  Env :: jsvalue
  Warning :: "string option"

record environment =
  platformInformation :: PlatformInformation
  remoteName :: "string option"
  uiKind :: UIKind
  debugOptions :: jsvalue
  csharpDevKit :: bool
  brokeredServicePipeName :: "string option"
  dotnetPath :: string
  RemoteAttachPicker_ShowAttachEntries :: "config \<Rightarrow> exception + AttachItem option"
  AttachPicker_ShowAttachEntries :: "exception + AttachItem option"
  CreateFromFile :: "jsvalue \<Rightarrow> jsvalue \<Rightarrow> string + ParsedEnvironmentFile"

text \<open>
  What the provider does to the outside, in the order it does it. The certificate check
  and the warning about an environment file are started and not awaited; the event
  records that they were started, and with which arguments.
\<close>

datatype effect =
    RemoteShowAttachEntries
  | LocalShowAttachEntries
  | ShowErrorMessage string bool
  | ShowFileWarningAsync string jsvalue
  | CheckForDevCerts string

datatype resolution = ReturnsConfiguration | ReturnsNull | ReturnsUndefined

text \<open>
  A block of statements either falls through to the next one, returns from the function,
  or throws. The configuration object is changed in place, so every block gives the
  state of the object when it ends, whichever way it ends.
\<close>

datatype control = Continue | Return resolution | Throw exception

record outcome =
  effects :: "effect list"
  configuration :: config
  control :: control

definition andThen :: "outcome \<Rightarrow> (config \<Rightarrow> outcome) \<Rightarrow> outcome" where
  "andThen first next =
     (case control first of
        Continue \<Rightarrow>
          (let second = next (configuration first)
           in second\<lparr>effects := effects first @ effects second\<rparr>)
      | Return r \<Rightarrow> first
      | Throw e \<Rightarrow> first)"

definition continue :: "config \<Rightarrow> outcome" where
  "continue cfg = \<lparr>effects = [], configuration = cfg, control = Continue\<rparr>"

subsection \<open>Settings\<close>

definition CheckIfSettingIsEmpty :: "jsvalue \<Rightarrow> exception + bool" where
  "CheckIfSettingIsEmpty input =
     (if typeof input = ''object'' then
        (case input of
           JArray xs \<Rightarrow> Inr (length xs = 0)
         | _ \<Rightarrow> (case Object_keys input of
                   Inl e \<Rightarrow> Inl e
                 | Inr keys \<Rightarrow> Inr (length keys = 0)))
      else if typeof input = ''string'' then Inr (\<not> truthy input)
      else if typeof input = ''boolean'' \<or> typeof input = ''number'' then Inr False
      else Inl (Thrown ''Unknown type to check to see if setting is empty''))"

text \<open>
  The loop over the keys of the settings (lines 163 to 174); it stops at the first
  exception. The object is its own properties and its prototype.
\<close>

fun loadSettingDebugOptions_loop ::
    "jsvalue \<Rightarrow> string list \<Rightarrow> config \<Rightarrow> prototype
       \<Rightarrow> (config \<times> prototype) \<times> exception option" where
  "loadSettingDebugOptions_loop result [] debugConfiguration proto =
     ((debugConfiguration, proto), None)"
| "loadSettingDebugOptions_loop result (key # keys) debugConfiguration proto =
     (case hasOwnProperty debugConfiguration proto key of
        Inl e \<Rightarrow> ((debugConfiguration, proto), Some e)
      | Inr present \<Rightarrow>
          if present \<or> key = ''console''
          then loadSettingDebugOptions_loop result keys debugConfiguration proto
          else
            (let settingsValue = js_index result key
             in case CheckIfSettingIsEmpty settingsValue of
                  Inl e \<Rightarrow> ((debugConfiguration, proto), Some e)
                | Inr isEmpty \<Rightarrow>
                    if \<not> isEmpty
                    then loadSettingDebugOptions_loop result keys
                           (fst (js_assign debugConfiguration proto key settingsValue))
                           (snd (js_assign debugConfiguration proto key settingsValue))
                    else loadSettingDebugOptions_loop result keys debugConfiguration proto))"

definition loadSettingDebugOptions ::
    "environment \<Rightarrow> config \<Rightarrow> (config \<times> prototype) \<times> exception option" where
  "loadSettingDebugOptions env debugConfiguration =
     (case JSON_parse_stringify (debugOptions env) of
        Inl e \<Rightarrow> ((debugConfiguration, ObjectPrototype), Some e)
      | Inr result \<Rightarrow>
          (case Object_keys result of
             Inl e \<Rightarrow> ((debugConfiguration, ObjectPrototype), Some e)
           | Inr keys \<Rightarrow>
               loadSettingDebugOptions_loop result keys debugConfiguration ObjectPrototype))"

text \<open>
  The outcome of \<^verbatim>\<open>resolveDebugConfiguration\<close> (lines 30 to 42) tells the prototype of the
  object as well, which the merge may have replaced.
\<close>

record resolved = outcome +
  prototype :: prototype

definition resolveDebugConfiguration :: "environment \<Rightarrow> config \<Rightarrow> resolved" where
  "resolveDebugConfiguration env debugConfiguration =
     (if length (map fst debugConfiguration) = 0
      then \<lparr>effects = [], configuration = debugConfiguration,
            control = Return (if csharpDevKit env then ReturnsUndefined else ReturnsNull),
            prototype = ObjectPrototype\<rparr>
      else
        (case loadSettingDebugOptions env debugConfiguration of
           ((cfg, proto), Some e) \<Rightarrow>
             \<lparr>effects = [], configuration = cfg, control = Throw e, prototype = proto\<rparr>
         | ((cfg, proto), None) \<Rightarrow>
             \<lparr>effects = [], configuration = cfg, control = Return ReturnsConfiguration,
              prototype = proto\<rparr>))"

subsection \<open>Resolution after variable substitution\<close>

text \<open>Lines 49 to 52: a configuration without a usable type.\<close>

definition checkType :: "config \<Rightarrow> outcome" where
  "checkType cfg =
     (if \<not> truthy (js_get cfg ''type'')
      then \<lparr>effects = [], configuration = cfg, control = Return ReturnsNull\<rparr>
      else continue cfg)"

text \<open>Lines 54 to 57.\<close>

definition setBrokeredServicePipeName :: "environment \<Rightarrow> config \<Rightarrow> outcome" where
  "setBrokeredServicePipeName env cfg =
     (case brokeredServicePipeName env of
        Some name \<Rightarrow> continue (js_set cfg ''brokeredServicePipeName'' (JString name))
      | None \<Rightarrow> continue cfg)"

text \<open>Lines 128 to 147.\<close>

definition parseEnvFile :: "environment \<Rightarrow> jsvalue \<Rightarrow> config \<Rightarrow> outcome" where
  "parseEnvFile env envFile cfg =
     (case CreateFromFile env envFile (js_get cfg ''env'') of
        Inl e \<Rightarrow>
          \<lparr>effects = [], configuration = cfg,
           control = Throw (Error (''Can't parse envFile '' @ js_to_string envFile
                                     @ '' because of '' @ e))\<rparr>
      | Inr parsedFile \<Rightarrow>
          \<lparr>effects =
             (case Warning parsedFile of
                Some w \<Rightarrow> (if w \<noteq> [] then [ShowFileWarningAsync w envFile] else [])
              | None \<Rightarrow> []),
           configuration = js_delete (js_set cfg ''env'' (Env parsedFile)) ''envFile'',
           control = Continue\<rparr>)"

text \<open>Lines 60 to 62; \<open>folder\<close> is the path of the workspace folder, when there is one.\<close>

definition defaultCwd :: "string option \<Rightarrow> config \<Rightarrow> config" where
  "defaultCwd folder cfg =
     (if \<not> truthy (js_get cfg ''cwd'') \<and> \<not> truthy (js_get cfg ''pipeTransport'')
      then js_set cfg ''cwd'' (case folder of None \<Rightarrow> JUndefined | Some fsPath \<Rightarrow> JString fsPath)
      else cfg)"

text \<open>Line 64: \<^verbatim>\<open>??=\<close> assigns when the property is \<^verbatim>\<open>undefined\<close> or \<^verbatim>\<open>null\<close>.\<close>

definition defaultInternalConsoleOptions :: "config \<Rightarrow> config" where
  "defaultInternalConsoleOptions cfg =
     (if js_get cfg ''internalConsoleOptions'' = JUndefined
           \<or> js_get cfg ''internalConsoleOptions'' = JNull
      then js_set cfg ''internalConsoleOptions'' (JString ''openOnSessionStart'')
      else cfg)"

text \<open>Lines 66 to 69.\<close>

definition readEnvFile :: "environment \<Rightarrow> config \<Rightarrow> outcome" where
  "readEnvFile env cfg =
     (let envFile = js_get cfg ''envFile''
      in if envFile \<noteq> JUndefined then
           (case js_length envFile of
              Inl e \<Rightarrow> \<lparr>effects = [], configuration = cfg, control = Throw e\<rparr>
            | Inr len \<Rightarrow> if js_gt_zero len then parseEnvFile env envFile cfg else continue cfg)
         else continue cfg)"

text \<open>Lines 59 to 70.\<close>

definition resolveLaunch :: "environment \<Rightarrow> string option \<Rightarrow> config \<Rightarrow> outcome" where
  "resolveLaunch env folder cfg =
     (if js_get cfg ''request'' = JString ''launch''
      then readEnvFile env (defaultInternalConsoleOptions (defaultCwd folder cfg))
      else continue cfg)"

text \<open>The process flag \<^verbatim>\<open>P_TRANSLATED\<close>, written \<^verbatim>\<open>0x20000\<close> in the source: bit 17.\<close>

definition P_TRANSLATED :: int where
  "P_TRANSLATED = 131072"

text \<open>Lines 87 to 98: the target architecture of a selected process.\<close>

definition inferTargetArchitecture :: "environment \<Rightarrow> AttachItem \<Rightarrow> config \<Rightarrow> config" where
  "inferTargetArchitecture env process cfg =
     (if js_loose_eq_string (js_get cfg ''type'') ''coreclr''
          \<and> isMacOS (platformInformation env)
          \<and> architecture (platformInformation env) = ''arm64''
      then
        (if js_bitand (flags process) P_TRANSLATED \<noteq> 0
         then js_set cfg ''targetArchitecture'' (JString ''x86_64'')
         else js_set cfg ''targetArchitecture'' (JString ''arm64''))
      else cfg)"

text \<open>Lines 73 to 104.\<close>

definition resolveAttach :: "environment \<Rightarrow> config \<Rightarrow> outcome" where
  "resolveAttach env cfg =
     (if js_get cfg ''request'' = JString ''attach''
          \<and> \<not> truthy (js_get cfg ''processId'') \<and> \<not> truthy (js_get cfg ''processName'')
      then
        (let shown = (if truthy (js_get cfg ''pipeTransport'')
                      then RemoteShowAttachEntries else LocalShowAttachEntries);
             picked = (if truthy (js_get cfg ''pipeTransport'')
                       then RemoteAttachPicker_ShowAttachEntries env cfg
                       else AttachPicker_ShowAttachEntries env)
         in case picked of
              Inl e \<Rightarrow> \<lparr>effects = [shown], configuration = cfg, control = Throw e\<rparr>
            | Inr None \<Rightarrow>
                \<lparr>effects = [shown, ShowErrorMessage ''No process was selected.'' True],
                 configuration = cfg, control = Return ReturnsUndefined\<rparr>
            | Inr (Some process) \<Rightarrow>
                \<lparr>effects = [shown],
                 configuration =
                   inferTargetArchitecture env process
                     (js_set cfg ''processId'' (JString (id' process))),
                 control = Continue\<rparr>)
      else continue cfg)"

text \<open>
  \<^verbatim>\<open>vscode.env.remoteName\<close> read as a condition: a string that is not empty.
\<close>

definition hasRemoteName :: "environment \<Rightarrow> bool" where
  "hasRemoteName env = (case remoteName env of None \<Rightarrow> False | Some name \<Rightarrow> name \<noteq> [])"

text \<open>Lines 110 to 118.\<close>

definition resolveDevCert :: "environment \<Rightarrow> config \<Rightarrow> outcome" where
  "resolveDevCert env cfg =
     (if \<not> isLinux (platformInformation env)
          \<and> \<not> hasRemoteName env
          \<and> uiKind env \<noteq> Web
          \<and> \<not> truthy (js_get cfg ''pipeTransport'')
      then
        (let cfg1 =
               (if js_get cfg ''checkForDevCert'' = JUndefined
                     \<and> truthy (js_get cfg ''serverReadyAction'')
                     \<and> js_get cfg ''type'' = JString ''coreclr''
                then js_set cfg ''checkForDevCert'' (JBool True)
                else cfg)
         in \<lparr>effects =
               (if truthy (js_get cfg1 ''checkForDevCert'')
                then [CheckForDevCerts (dotnetPath env)] else []),
             configuration = cfg1, control = Continue\<rparr>)
      else continue cfg)"

definition resolveDebugConfigurationWithSubstitutedVariables ::
    "environment \<Rightarrow> string option \<Rightarrow> config \<Rightarrow> outcome" where
  "resolveDebugConfigurationWithSubstitutedVariables env folder debugConfiguration =
     andThen (checkType debugConfiguration) (\<lambda>cfg.
     andThen (setBrokeredServicePipeName env cfg) (\<lambda>cfg.
     andThen (resolveLaunch env folder cfg) (\<lambda>cfg.
     andThen (resolveAttach env cfg) (\<lambda>cfg.
     andThen (resolveDevCert env cfg) (\<lambda>cfg.
       \<lparr>effects = [], configuration = cfg, control = Return ReturnsConfiguration\<rparr>)))))"

section \<open>Notions used in the statements\<close>

text \<open>
  The conditions under which the certificate step is entered (line 110): not on Linux,
  no remote name, not the Web user interface, and no \<^verbatim>\<open>pipeTransport\<close> configured.
\<close>

definition devCertGate :: "environment \<Rightarrow> config \<Rightarrow> bool" where
  "devCertGate env cfg =
     (\<not> isLinux (platformInformation env) \<and> \<not> hasRemoteName env \<and> uiKind env \<noteq> Web
      \<and> \<not> truthy (js_get cfg ''pipeTransport''))"

text \<open>A process picker was shown during a resolution.\<close>

definition pickerShown :: "outcome \<Rightarrow> bool" where
  "pickerShown out =
     (RemoteShowAttachEntries \<in> set (effects out) \<or> LocalShowAttachEntries \<in> set (effects out))"

text \<open>
  The answer of the picker that the resolution of a configuration shows: the remote one
  when a \<^verbatim>\<open>pipeTransport\<close> is configured, the local one otherwise. The remote picker is
  given the configuration as it is at that point, with the brokered service pipe name.
\<close>

definition pickerAnswer :: "environment \<Rightarrow> config \<Rightarrow> exception + AttachItem option" where
  "pickerAnswer env cfg =
     (if truthy (js_get cfg ''pipeTransport'')
      then RemoteAttachPicker_ShowAttachEntries env
             (configuration (setBrokeredServicePipeName env cfg))
      else AttachPicker_ShowAttachEntries env)"

text \<open>
  The resolution up to the end of the launch block (lines 49 to 70), and up to the end of
  the attach block (lines 49 to 104), for a configuration that has a type.
\<close>

definition launched :: "environment \<Rightarrow> string option \<Rightarrow> config \<Rightarrow> outcome" where
  "launched env folder cfg =
     resolveLaunch env folder (configuration (setBrokeredServicePipeName env cfg))"

definition attached :: "environment \<Rightarrow> string option \<Rightarrow> config \<Rightarrow> outcome" where
  "attached env folder cfg = resolveAttach env (configuration (launched env folder cfg))"

text \<open>A setting that counts as empty: the empty string, the empty array, the empty object.\<close>

definition emptySetting :: "jsvalue \<Rightarrow> bool" where
  "emptySetting v = (v = JString [] \<or> v = JArray [] \<or> v = JObject [])"

text \<open>
  An environment to run examples in: a desktop session without a remote, on the given
  platform, with the given settings, where both pickers give the given answer and the
  environment file holds one variable.
\<close>

definition exampleEnvironment ::
    "PlatformInformation \<Rightarrow> jsvalue \<Rightarrow> exception + AttachItem option \<Rightarrow> environment" where
  "exampleEnvironment platform settings answer =
     \<lparr>platformInformation = platform,
      remoteName = None,
      uiKind = Desktop,
      debugOptions = settings,
      csharpDevKit = False,
      brokeredServicePipeName = None,
      dotnetPath = ''dotnet'',
      RemoteAttachPicker_ShowAttachEntries = (\<lambda>cfg. answer),
      AttachPicker_ShowAttachEntries = answer,
      CreateFromFile = (\<lambda>envFile initialEnv.
        Inr \<lparr>Env = JObject [(''A'', JString ''1'')], Warning = None\<rparr>)\<rparr>"

definition windows :: PlatformInformation where
  "windows = \<lparr>isLinux = False, isMacOS = False, architecture = ''x86_64''\<rparr>"

definition linux :: PlatformInformation where
  "linux = \<lparr>isLinux = True, isMacOS = False, architecture = ''x86_64''\<rparr>"

definition appleSilicon :: PlatformInformation where
  "appleSilicon = \<lparr>isLinux = False, isMacOS = True, architecture = ''arm64''\<rparr>"

section \<open>Properties of the option name converter\<close>

lemma indexOf_from_mem:
  "c \<in> set s \<Longrightarrow> indexOf_from s c i = i + int (length (takeWhile (\<lambda>x. x \<noteq> c) s))"
  by (induction s arbitrary: i) auto

lemma indexOf_from_notin: "c \<notin> set s \<Longrightarrow> indexOf_from s c i = - 1"
  by (induction s arbitrary: i) auto

lemma lastIndexOf_from_notin: "c \<notin> set s \<Longrightarrow> lastIndexOf_from s c i found = found"
  by (induction s arbitrary: i found) auto

lemma substring_0_takeWhile:
  "substring s 0 (int (length (takeWhile P s))) = takeWhile P s"
proof -
  have "length (takeWhile P s) \<le> length s"
    by (rule length_takeWhile_le)
  then show ?thesis
    by (simp add: substring_def clamp_index_def Let_def takeWhile_eq_take [symmetric])
qed

lemma languagePrefix_Some:
  assumes "languagePrefix section = Some lang"
  shows "indexOf section (CHR ''|'') \<noteq> - 1"
    and "substring section 0 (indexOf section (CHR ''|'')) = lang"
proof -
  from assms have mem: "CHR ''|'' \<in> set section"
    and lang: "lang = takeWhile (\<lambda>c. c \<noteq> CHR ''|'') section"
    by (auto simp: languagePrefix_def split: if_splits)
  have idx: "indexOf section (CHR ''|'') = int (length (takeWhile (\<lambda>c. c \<noteq> CHR ''|'') section))"
    using mem by (simp add: indexOf_def indexOf_from_mem)
  show "indexOf section (CHR ''|'') \<noteq> - 1"
    by (simp add: idx)
  show "substring section 0 (indexOf section (CHR ''|'')) = lang"
    by (simp add: idx lang substring_0_takeWhile)
qed

lemma languagePrefix_None: "languagePrefix section = None \<Longrightarrow> indexOf section (CHR ''|'') = - 1"
  by (simp add: languagePrefix_def indexOf_def indexOf_from_notin split: if_splits)

lemma other_language_null:
  assumes "languagePrefix section = Some lang" and "lang \<noteq> ''csharp''"
  shows "convertServerOptionNameToClientConfigurationName section = Inr None"
  using languagePrefix_Some [OF assms(1)] assms(2)
  by (simp add: convertServerOptionNameToClientConfigurationName_def)

lemma no_dot_assertion:
  assumes "CHR ''.'' \<notin> set section"
    and "languagePrefix section = None \<or> languagePrefix section = Some ''csharp''"
  shows "convertServerOptionNameToClientConfigurationName section
           = Inl (AssertionError (''There is no . in '' @ section @ ''.''))"
proof -
  have dot: "lastIndexOf section (CHR ''.'') = - 1"
    using assms(1) by (simp add: lastIndexOf_def lastIndexOf_from_notin)
  from assms(2) have
    "indexOf section (CHR ''|'') = - 1
       \<or> substring section 0 (indexOf section (CHR ''|'')) = ''csharp''"
    using languagePrefix_None languagePrefix_Some(2) by blast
  then show ?thesis
    by (auto simp: convertServerOptionNameToClientConfigurationName_def dot)
qed

text \<open>
  Claim C7. The section name \<^verbatim>\<open>csharp|implement_type.dotnet_insertion_behavior\<close> converts
  to exactly \<^verbatim>\<open>dotnet.implementType.insertionBehavior\<close>, and every section name whose
  language prefix (the part before the \<open>|\<close>) is not \<^verbatim>\<open>csharp\<close> converts to \<^verbatim>\<open>null\<close>.
\<close>

theorem C7_convert_example_and_other_language:
  "convertServerOptionNameToClientConfigurationName
       ''csharp|implement_type.dotnet_insertion_behavior''
     = Inr (Some ''dotnet.implementType.insertionBehavior'')
   \<and> (\<forall>section lang. languagePrefix section = Some lang \<and> lang \<noteq> ''csharp''
         \<longrightarrow> convertServerOptionNameToClientConfigurationName section = Inr None)"
proof
  show "convertServerOptionNameToClientConfigurationName
          ''csharp|implement_type.dotnet_insertion_behavior''
        = Inr (Some ''dotnet.implementType.insertionBehavior'')"
    by code_simp
  show "\<forall>section lang. languagePrefix section = Some lang \<and> lang \<noteq> ''csharp''
          \<longrightarrow> convertServerOptionNameToClientConfigurationName section = Inr None"
    using other_language_null by blast
qed

theorem C7_witness:
  "languagePrefix ''visualbasic|implement_type.dotnet_insertion_behavior'' = Some ''visualbasic''
   \<and> ''visualbasic'' \<noteq> ''csharp''
   \<and> convertServerOptionNameToClientConfigurationName
         ''visualbasic|implement_type.dotnet_insertion_behavior'' = Inr None"
proof -
  have p: "languagePrefix ''visualbasic|implement_type.dotnet_insertion_behavior''
             = Some ''visualbasic''"
    by (simp add: languagePrefix_def)
  have q: "''visualbasic'' \<noteq> ''csharp''"
    by simp
  from C7_convert_example_and_other_language p q
  have "convertServerOptionNameToClientConfigurationName
          ''visualbasic|implement_type.dotnet_insertion_behavior'' = Inr None"
    by blast
  with p q show ?thesis by blast
qed

text \<open>
  Claim C8, as stated: every section name without a \<open>.\<close> raises an assertion failure.
  It does not hold: the language check comes first, and a name with another language
  prefix returns \<^verbatim>\<open>null\<close> before the assertion is reached.
\<close>

theorem C8_counterexample:
  "CHR ''.'' \<notin> set ''visualbasic|tab_width''
   \<and> convertServerOptionNameToClientConfigurationName ''visualbasic|tab_width'' = Inr None"
  by code_simp

text \<open>
  Claim C8, amended. A section name without a \<open>.\<close> raises the assertion failure when it
  has no language prefix or the prefix \<^verbatim>\<open>csharp\<close>; with any other language prefix it
  returns \<^verbatim>\<open>null\<close>.
\<close>

theorem C8_no_dot_asserts_unless_other_language:
  "CHR ''.'' \<notin> set section \<Longrightarrow>
   convertServerOptionNameToClientConfigurationName section
     = (if languagePrefix section = None \<or> languagePrefix section = Some ''csharp''
        then Inl (AssertionError (''There is no . in '' @ section @ ''.''))
        else Inr None)"
proof (cases "languagePrefix section = None \<or> languagePrefix section = Some ''csharp''")
  case True
  assume "CHR ''.'' \<notin> set section"
  with True show ?thesis
    using no_dot_assertion by simp
next
  case False
  then obtain lang where "languagePrefix section = Some lang" and "lang \<noteq> ''csharp''"
    by (cases "languagePrefix section") auto
  with False show ?thesis
    using other_language_null by simp
qed

theorem C8_witness:
  "CHR ''.'' \<notin> set ''csharp|tab_width''
   \<and> convertServerOptionNameToClientConfigurationName ''csharp|tab_width''
       = Inl (AssertionError ''There is no . in csharp|tab_width.'')"
proof -
  have d: "CHR ''.'' \<notin> set ''csharp|tab_width''"
    by simp
  have l: "languagePrefix ''csharp|tab_width'' = Some ''csharp''"
    by (simp add: languagePrefix_def)
  show ?thesis
    using d C8_no_dot_asserts_unless_other_language [OF d] l by simp
qed

section \<open>Properties of the folding range provider\<close>

lemma pushRanges_map: "pushRanges ranges members = ranges @ map spec_foldingRange members"
  by (induction members arbitrary: ranges)
     (simp_all add: spec_foldingRange_def new_FoldingRange_def GetType_def)

text \<open>
  Claim C9. When the backend answers, the provider returns one folding range for each
  span of the answer, in the same order: its start and end are the span's start and end
  line numbers, unchanged, and its kind is Comment, Imports or Region for the kind strings
  of these names and undefined for any other kind string.
\<close>

theorem C9_provideFoldingRanges_spans:
  "provideFoldingRanges (Inr response) = map spec_foldingRange (Spans response)"
  by (simp add: provideFoldingRanges_def pushRanges_map)

section \<open>Properties of the configuration provider\<close>

subsection \<open>Reading and writing properties\<close>

lemma map_of_js_set: "map_of (js_set obj k v) = (map_of obj)(k \<mapsto> v)"
  by (simp add: js_set_def update_conv')

lemma map_of_js_delete: "map_of (js_delete obj k) = (map_of obj)(k := None)"
  by (simp add: js_delete_def delete_conv')

lemma js_get_js_set: "js_get (js_set obj k v) k' = (if k' = k then v else js_get obj k')"
  by (simp add: js_get_def map_of_js_set)

lemma js_get_js_delete: "js_get (js_delete obj k) k' = (if k' = k then JUndefined else js_get obj k')"
  by (simp add: js_get_def map_of_js_delete)

lemma js_get_cong: "map_of a k = map_of b k \<Longrightarrow> js_get a k = js_get b k"
  by (simp add: js_get_def)

lemma js_bitand_P_TRANSLATED: "js_bitand f P_TRANSLATED \<noteq> 0 \<longleftrightarrow> bit f 17"
proof -
  have "(131072 :: 32 word) = 2 ^ 17" by simp
  then have "(word_of_int f AND (131072 :: 32 word)) = 0 \<longleftrightarrow> \<not> bit (word_of_int f :: 32 word) 17"
    by (simp only: and_exp_eq_0_iff_not_bit)
  then show ?thesis
    by (simp add: js_bitand_def P_TRANSLATED_def bit_word_of_int_iff signed_eq_0_iff)
qed

subsection \<open>The blocks one by one\<close>

lemma setBrokeredServicePipeName_control [simp]:
  "control (setBrokeredServicePipeName env cfg) = Continue"
  by (simp add: setBrokeredServicePipeName_def continue_def split: option.splits)

lemma setBrokeredServicePipeName_effects [simp]:
  "effects (setBrokeredServicePipeName env cfg) = []"
  by (simp add: setBrokeredServicePipeName_def continue_def split: option.splits)

lemma setBrokeredServicePipeName_frame:
  "k \<noteq> ''brokeredServicePipeName'' \<Longrightarrow>
   map_of (configuration (setBrokeredServicePipeName env cfg)) k = map_of cfg k"
  by (simp add: setBrokeredServicePipeName_def continue_def map_of_js_set split: option.splits)

lemma parseEnvFile_frame:
  "k \<noteq> ''env'' \<Longrightarrow> k \<noteq> ''envFile'' \<Longrightarrow>
   map_of (configuration (parseEnvFile env envFile cfg)) k = map_of cfg k"
  by (simp add: parseEnvFile_def map_of_js_set map_of_js_delete split: sum.splits)

lemma parseEnvFile_effects:
  "e \<in> set (effects (parseEnvFile env envFile cfg)) \<Longrightarrow> \<exists>w f. e = ShowFileWarningAsync w f"
  by (auto simp: parseEnvFile_def split: sum.splits option.splits if_splits)

lemma defaultCwd_frame: "k \<noteq> ''cwd'' \<Longrightarrow> map_of (defaultCwd folder cfg) k = map_of cfg k"
  by (simp add: defaultCwd_def map_of_js_set)

lemma defaultInternalConsoleOptions_frame:
  "k \<noteq> ''internalConsoleOptions'' \<Longrightarrow> map_of (defaultInternalConsoleOptions cfg) k = map_of cfg k"
  by (simp add: defaultInternalConsoleOptions_def map_of_js_set)

lemma readEnvFile_frame:
  "k \<noteq> ''env'' \<Longrightarrow> k \<noteq> ''envFile'' \<Longrightarrow>
   map_of (configuration (readEnvFile env cfg)) k = map_of cfg k"
  by (simp add: readEnvFile_def Let_def continue_def parseEnvFile_frame split: sum.splits)

lemma readEnvFile_effects:
  "e \<in> set (effects (readEnvFile env cfg)) \<Longrightarrow> \<exists>w f. e = ShowFileWarningAsync w f"
  by (auto simp: readEnvFile_def Let_def continue_def dest: parseEnvFile_effects
           split: sum.splits if_splits)

lemma parseEnvFile_control: "control (parseEnvFile env envFile cfg) \<noteq> Return r"
  by (simp add: parseEnvFile_def split: sum.splits)

lemma readEnvFile_control: "control (readEnvFile env cfg) \<noteq> Return r"
  by (simp add: readEnvFile_def Let_def continue_def parseEnvFile_control split: sum.splits)

lemma resolveLaunch_frame:
  assumes "k \<noteq> ''cwd''" "k \<noteq> ''internalConsoleOptions''" "k \<noteq> ''env''" "k \<noteq> ''envFile''"
  shows "map_of (configuration (resolveLaunch env folder cfg)) k = map_of cfg k"
  using assms
  by (simp add: resolveLaunch_def continue_def readEnvFile_frame
        defaultInternalConsoleOptions_frame defaultCwd_frame)

lemma resolveLaunch_effects:
  "e \<in> set (effects (resolveLaunch env folder cfg)) \<Longrightarrow> \<exists>w f. e = ShowFileWarningAsync w f"
  by (cases "js_get cfg ''request'' = JString ''launch''")
     (auto simp: resolveLaunch_def continue_def dest: readEnvFile_effects)

lemma resolveLaunch_control: "control (resolveLaunch env folder cfg) \<noteq> Return r"
  by (simp add: resolveLaunch_def continue_def readEnvFile_control)

lemma resolveLaunch_other_request:
  "js_get cfg ''request'' \<noteq> JString ''launch'' \<Longrightarrow> resolveLaunch env folder cfg = continue cfg"
  by (simp add: resolveLaunch_def)

lemma inferTargetArchitecture_frame:
  "k \<noteq> ''targetArchitecture'' \<Longrightarrow>
   map_of (inferTargetArchitecture env process cfg) k = map_of cfg k"
  by (simp add: inferTargetArchitecture_def map_of_js_set)

lemma resolveAttach_frame:
  "k \<noteq> ''processId'' \<Longrightarrow> k \<noteq> ''targetArchitecture'' \<Longrightarrow>
   map_of (configuration (resolveAttach env cfg)) k = map_of cfg k"
  by (simp add: resolveAttach_def Let_def continue_def inferTargetArchitecture_frame map_of_js_set
           split: sum.splits option.splits)

lemma resolveAttach_effects:
  "CheckForDevCerts d \<notin> set (effects (resolveAttach env cfg))"
  by (simp add: resolveAttach_def Let_def continue_def split: sum.splits option.splits)

lemma resolveAttach_skip:
  "\<not> (js_get cfg ''request'' = JString ''attach''
        \<and> \<not> truthy (js_get cfg ''processId'') \<and> \<not> truthy (js_get cfg ''processName''))
   \<Longrightarrow> resolveAttach env cfg = continue cfg"
  by (auto simp: resolveAttach_def)

lemma resolveDevCert_control [simp]: "control (resolveDevCert env cfg) = Continue"
  by (simp add: resolveDevCert_def Let_def continue_def)

lemma resolveDevCert_frame:
  "k \<noteq> ''checkForDevCert'' \<Longrightarrow> map_of (configuration (resolveDevCert env cfg)) k = map_of cfg k"
  by (simp add: resolveDevCert_def Let_def continue_def map_of_js_set)

lemma resolveDevCert_closed:
  "\<not> devCertGate env cfg \<Longrightarrow> resolveDevCert env cfg = continue cfg"
  by (auto simp add: resolveDevCert_def devCertGate_def)

lemma resolveDevCert_effects:
  "e \<in> set (effects (resolveDevCert env cfg)) \<Longrightarrow> e = CheckForDevCerts (dotnetPath env)"
  by (auto simp: resolveDevCert_def Let_def continue_def split: if_splits)

lemma resolveDevCert_checkForDevCert:
  "map_of (configuration (resolveDevCert env cfg)) ''checkForDevCert'' =
     (if devCertGate env cfg \<and> js_get cfg ''checkForDevCert'' = JUndefined
           \<and> truthy (js_get cfg ''serverReadyAction'') \<and> js_get cfg ''type'' = JString ''coreclr''
      then Some (JBool True) else map_of cfg ''checkForDevCert'')"
  by (auto simp: resolveDevCert_def devCertGate_def Let_def continue_def map_of_js_set)

lemma devCertGate_cong:
  "map_of a ''pipeTransport'' = map_of b ''pipeTransport'' \<Longrightarrow> devCertGate env a = devCertGate env b"
  by (simp add: devCertGate_def js_get_def)

lemma resolveAttach_control: "control (resolveAttach env cfg) \<noteq> Return ReturnsConfiguration"
  by (simp add: resolveAttach_def Let_def continue_def split: sum.splits option.splits)



lemma resolve_unfold:
  "resolveDebugConfigurationWithSubstitutedVariables env folder cfg =
     (if \<not> truthy (js_get cfg ''type'')
      then \<lparr>effects = [], configuration = cfg, control = Return ReturnsNull\<rparr>
      else
        (let L = resolveLaunch env folder (configuration (setBrokeredServicePipeName env cfg))
         in if control L \<noteq> Continue then L
            else
              (let A = resolveAttach env (configuration L)
               in if control A \<noteq> Continue then A\<lparr>effects := effects L @ effects A\<rparr>
                  else
                    (let D = resolveDevCert env (configuration A)
                     in \<lparr>effects = effects L @ effects A @ effects D,
                         configuration = configuration D,
                         control = Return ReturnsConfiguration\<rparr>))))"
  by (simp add: resolveDebugConfigurationWithSubstitutedVariables_def andThen_def checkType_def
        continue_def Let_def split: control.splits)

lemma before_devCert_frame:
  assumes "k \<noteq> ''brokeredServicePipeName''" "k \<noteq> ''cwd''" "k \<noteq> ''internalConsoleOptions''"
    "k \<noteq> ''env''" "k \<noteq> ''envFile''" "k \<noteq> ''processId''" "k \<noteq> ''targetArchitecture''"
  shows "map_of (configuration (resolveAttach env (configuration (resolveLaunch env folder
           (configuration (setBrokeredServicePipeName env cfg)))))) k = map_of cfg k"
  using assms
  by (simp add: resolveAttach_frame resolveLaunch_frame setBrokeredServicePipeName_frame)

lemma before_attach_frame:
  assumes "k \<noteq> ''brokeredServicePipeName''" "k \<noteq> ''cwd''" "k \<noteq> ''internalConsoleOptions''"
    "k \<noteq> ''env''" "k \<noteq> ''envFile''"
  shows "map_of (configuration (resolveLaunch env folder
           (configuration (setBrokeredServicePipeName env cfg)))) k = map_of cfg k"
  using assms
  by (simp add: resolveLaunch_frame setBrokeredServicePipeName_frame)


lemma resolve_missing_type:
  "\<not> truthy (js_get cfg ''type'') \<Longrightarrow>
   resolveDebugConfigurationWithSubstitutedVariables env folder cfg
     = \<lparr>effects = [], configuration = cfg, control = Return ReturnsNull\<rparr>"
  by (simp add: resolve_unfold)


lemma resolve_launch_stops:
  assumes "truthy (js_get cfg ''type'')"
    and "control (resolveLaunch env folder (configuration (setBrokeredServicePipeName env cfg))) \<noteq> Continue"
  shows "resolveDebugConfigurationWithSubstitutedVariables env folder cfg
           = resolveLaunch env folder (configuration (setBrokeredServicePipeName env cfg))"
  using assms by (simp add: resolve_unfold)

lemma resolve_attach_stops:
  assumes "truthy (js_get cfg ''type'')"
    and "resolveLaunch env folder (configuration (setBrokeredServicePipeName env cfg)) = L"
    and "control L = Continue"
    and "resolveAttach env (configuration L) = A"
    and "control A \<noteq> Continue"
  shows "resolveDebugConfigurationWithSubstitutedVariables env folder cfg
           = A\<lparr>effects := effects L @ effects A\<rparr>"
  using assms by (simp add: resolve_unfold)

lemma resolve_completes:
  assumes "truthy (js_get cfg ''type'')"
    and "resolveLaunch env folder (configuration (setBrokeredServicePipeName env cfg)) = L"
    and "control L = Continue"
    and "resolveAttach env (configuration L) = A"
    and "control A = Continue"
  shows "resolveDebugConfigurationWithSubstitutedVariables env folder cfg
           = \<lparr>effects = effects L @ effects A @ effects (resolveDevCert env (configuration A)),
              configuration = configuration (resolveDevCert env (configuration A)),
              control = Return ReturnsConfiguration\<rparr>"
  using assms by (simp add: resolve_unfold Let_def)

lemma resolveAttach_pickerShown:
  "(RemoteShowAttachEntries \<in> set (effects (resolveAttach env c))
      \<or> LocalShowAttachEntries \<in> set (effects (resolveAttach env c))) \<longleftrightarrow>
   (js_get c ''request'' = JString ''attach''
      \<and> \<not> truthy (js_get c ''processId'') \<and> \<not> truthy (js_get c ''processName''))"
  by (simp add: resolveAttach_def Let_def continue_def split: sum.splits option.splits)

lemma no_picker_elsewhere:
  "RemoteShowAttachEntries \<notin> set (effects (resolveLaunch env folder c))"
  "LocalShowAttachEntries \<notin> set (effects (resolveLaunch env folder c))"
  "RemoteShowAttachEntries \<notin> set (effects (resolveDevCert env c))"
  "LocalShowAttachEntries \<notin> set (effects (resolveDevCert env c))"
  using resolveLaunch_effects resolveDevCert_effects by blast+

subsection \<open>The whole resolution by cases\<close>

lemma resolve_cases [case_names missing_type launch_stops attach_stops completes]:
  obtains
    (missing_type) "\<not> truthy (js_get cfg ''type'')"
      "resolveDebugConfigurationWithSubstitutedVariables env folder cfg
         = \<lparr>effects = [], configuration = cfg, control = Return ReturnsNull\<rparr>"
  | (launch_stops) "truthy (js_get cfg ''type'')"
      "control (launched env folder cfg) \<noteq> Continue"
      "resolveDebugConfigurationWithSubstitutedVariables env folder cfg = launched env folder cfg"
  | (attach_stops) "truthy (js_get cfg ''type'')"
      "control (launched env folder cfg) = Continue"
      "control (attached env folder cfg) \<noteq> Continue"
      "resolveDebugConfigurationWithSubstitutedVariables env folder cfg
         = (attached env folder cfg)
             \<lparr>effects := effects (launched env folder cfg) @ effects (attached env folder cfg)\<rparr>"
  | (completes) "truthy (js_get cfg ''type'')"
      "control (launched env folder cfg) = Continue"
      "control (attached env folder cfg) = Continue"
      "resolveDebugConfigurationWithSubstitutedVariables env folder cfg
         = \<lparr>effects = effects (launched env folder cfg) @ effects (attached env folder cfg)
                @ effects (resolveDevCert env (configuration (attached env folder cfg))),
            configuration = configuration (resolveDevCert env (configuration (attached env folder cfg))),
            control = Return ReturnsConfiguration\<rparr>"
proof (cases "truthy (js_get cfg ''type'')")
  case False
  from False resolve_missing_type [OF False] show ?thesis
    by (rule missing_type)
next
  case type: True
  show ?thesis
  proof (cases "control (launched env folder cfg) = Continue")
    case False
    then have F: "control (resolveLaunch env folder
                     (configuration (setBrokeredServicePipeName env cfg))) \<noteq> Continue"
      unfolding launched_def .
    have "resolveDebugConfigurationWithSubstitutedVariables env folder cfg = launched env folder cfg"
      unfolding launched_def by (rule resolve_launch_stops [OF type F])
    with type False show ?thesis
      by (rule launch_stops)
  next
    case L: True
    then have L': "control (resolveLaunch env folder
                     (configuration (setBrokeredServicePipeName env cfg))) = Continue"
      unfolding launched_def .
    show ?thesis
    proof (cases "control (attached env folder cfg) = Continue")
      case False
      then have F: "control (resolveAttach env (configuration (resolveLaunch env folder
                     (configuration (setBrokeredServicePipeName env cfg))))) \<noteq> Continue"
        unfolding attached_def launched_def .
      have "resolveDebugConfigurationWithSubstitutedVariables env folder cfg
         = (attached env folder cfg)
             \<lparr>effects := effects (launched env folder cfg) @ effects (attached env folder cfg)\<rparr>"
        unfolding attached_def launched_def
        by (rule resolve_attach_stops [OF type refl L' refl F])
      with type L False show ?thesis
        by (rule attach_stops)
    next
      case True
      then have A': "control (resolveAttach env (configuration (resolveLaunch env folder
                     (configuration (setBrokeredServicePipeName env cfg))))) = Continue"
        unfolding attached_def launched_def .
      have "resolveDebugConfigurationWithSubstitutedVariables env folder cfg
         = \<lparr>effects = effects (launched env folder cfg) @ effects (attached env folder cfg)
                @ effects (resolveDevCert env (configuration (attached env folder cfg))),
            configuration = configuration (resolveDevCert env (configuration (attached env folder cfg))),
            control = Return ReturnsConfiguration\<rparr>"
        unfolding attached_def launched_def
        by (rule resolve_completes [OF type refl L' refl A'])
      with type L True show ?thesis
        by (rule completes)
    qed
  qed
qed

lemma setBrokeredServicePipeName_get:
  "k \<noteq> ''brokeredServicePipeName'' \<Longrightarrow>
   js_get (configuration (setBrokeredServicePipeName env cfg)) k = js_get cfg k"
  by (rule js_get_cong) (rule setBrokeredServicePipeName_frame)

lemma launched_frame:
  assumes "k \<noteq> ''brokeredServicePipeName''" "k \<noteq> ''cwd''" "k \<noteq> ''internalConsoleOptions''"
    "k \<noteq> ''env''" "k \<noteq> ''envFile''"
  shows "map_of (configuration (launched env folder cfg)) k = map_of cfg k"
  unfolding launched_def using assms by (rule before_attach_frame)

lemma launched_effects:
  "e \<in> set (effects (launched env folder cfg)) \<Longrightarrow> \<exists>w f. e = ShowFileWarningAsync w f"
  unfolding launched_def by (rule resolveLaunch_effects)

lemma launched_control: "control (launched env folder cfg) \<noteq> Return r"
  unfolding launched_def by (rule resolveLaunch_control)

lemma launched_other_request:
  assumes "js_get cfg ''request'' \<noteq> JString ''launch''"
  shows "launched env folder cfg = continue (configuration (setBrokeredServicePipeName env cfg))"
proof -
  have "js_get (configuration (setBrokeredServicePipeName env cfg)) ''request'' \<noteq> JString ''launch''"
    using assms by (simp add: setBrokeredServicePipeName_get)
  then show ?thesis
    unfolding launched_def by (rule resolveLaunch_other_request)
qed

lemma launched_get:
  assumes "k = ''request'' \<or> k = ''processId'' \<or> k = ''processName'' \<or> k = ''pipeTransport''
           \<or> k = ''type'' \<or> k = ''checkForDevCert'' \<or> k = ''serverReadyAction''
           \<or> k = ''targetArchitecture''"
  shows "js_get (configuration (launched env folder cfg)) k = js_get cfg k"
proof (rule js_get_cong, rule launched_frame)
  show "k \<noteq> ''brokeredServicePipeName''" using assms by auto
  show "k \<noteq> ''cwd''" using assms by auto
  show "k \<noteq> ''internalConsoleOptions''" using assms by auto
  show "k \<noteq> ''env''" using assms by auto
  show "k \<noteq> ''envFile''" using assms by auto
qed

lemma attached_frame:
  assumes "k \<noteq> ''brokeredServicePipeName''" "k \<noteq> ''cwd''" "k \<noteq> ''internalConsoleOptions''"
    "k \<noteq> ''env''" "k \<noteq> ''envFile''" "k \<noteq> ''processId''" "k \<noteq> ''targetArchitecture''"
  shows "map_of (configuration (attached env folder cfg)) k = map_of cfg k"
  unfolding attached_def launched_def using assms by (rule before_devCert_frame)

lemma attached_control: "control (attached env folder cfg) \<noteq> Return ReturnsConfiguration"
  unfolding attached_def by (rule resolveAttach_control)

lemma attached_effects: "CheckForDevCerts d \<notin> set (effects (attached env folder cfg))"
  unfolding attached_def by (rule resolveAttach_effects)

lemma attached_pickerShown:
  "(RemoteShowAttachEntries \<in> set (effects (attached env folder cfg))
      \<or> LocalShowAttachEntries \<in> set (effects (attached env folder cfg))) \<longleftrightarrow>
   (js_get cfg ''request'' = JString ''attach''
      \<and> \<not> truthy (js_get cfg ''processId'') \<and> \<not> truthy (js_get cfg ''processName''))"
  unfolding attached_def by (simp add: resolveAttach_pickerShown launched_get)

lemma pickerShown_iff:
  "pickerShown (resolveDebugConfigurationWithSubstitutedVariables env folder cfg) \<longleftrightarrow>
     truthy (js_get cfg ''type'') \<and> js_get cfg ''request'' = JString ''attach''
     \<and> \<not> truthy (js_get cfg ''processId'') \<and> \<not> truthy (js_get cfg ''processName'')"
proof -
  have noL: "RemoteShowAttachEntries \<notin> set (effects (launched env folder cfg))"
    "LocalShowAttachEntries \<notin> set (effects (launched env folder cfg))"
    using launched_effects by blast+
  show ?thesis
  proof (cases env folder cfg rule: resolve_cases)
    case missing_type
    then show ?thesis
      by (simp add: pickerShown_def)
  next
    case launch_stops
    have "js_get cfg ''request'' \<noteq> JString ''attach''"
    proof
      assume "js_get cfg ''request'' = JString ''attach''"
      then have "launched env folder cfg = continue (configuration (setBrokeredServicePipeName env cfg))"
        by (intro launched_other_request) simp
      with launch_stops(2) show False
        by (simp add: continue_def)
    qed
    then show ?thesis
      by (simp add: launch_stops(3) pickerShown_def noL)
  next
    case attach_stops
    show ?thesis
      using attached_pickerShown [of env folder cfg] attach_stops(1)
      by (simp add: attach_stops(4) pickerShown_def noL)
  next
    case completes
    show ?thesis
      using attached_pickerShown [of env folder cfg] completes(1)
      by (simp add: completes(4) pickerShown_def noL no_picker_elsewhere)
  qed
qed

lemma final_frame:
  assumes "k \<noteq> ''brokeredServicePipeName''" "k \<noteq> ''cwd''" "k \<noteq> ''internalConsoleOptions''"
    "k \<noteq> ''env''" "k \<noteq> ''envFile''" "k \<noteq> ''processId''" "k \<noteq> ''targetArchitecture''"
    "k \<noteq> ''checkForDevCert''"
  shows "map_of (configuration (resolveDebugConfigurationWithSubstitutedVariables env folder cfg)) k
           = map_of cfg k"
proof (cases env folder cfg rule: resolve_cases)
  case missing_type
  then show ?thesis by simp
next
  case launch_stops
  show ?thesis
    unfolding launch_stops(3) using assms(1-5) by (rule launched_frame)
next
  case attach_stops
  have "map_of (configuration (attached env folder cfg)) k = map_of cfg k"
    using assms(1-7) by (rule attached_frame)
  then show ?thesis
    by (simp add: attach_stops(4))
next
  case completes
  have "map_of (configuration (attached env folder cfg)) k = map_of cfg k"
    using assms(1-7) by (rule attached_frame)
  then show ?thesis
    using assms(8) by (simp add: completes(4) resolveDevCert_frame)
qed

subsection \<open>Claims about the resolution\<close>

text \<open>
  Claim C6. A configuration whose \<^verbatim>\<open>type\<close> is absent (or holds a value that counts as
  false: \<^verbatim>\<open>undefined\<close>, \<^verbatim>\<open>null\<close>, the empty string, \<^verbatim>\<open>0\<close>, \<^verbatim>\<open>false\<close>) makes the
  resolution return \<^verbatim>\<open>null\<close> at once: nothing is shown or started, and the
  configuration object is as it was given.
\<close>

theorem C6_missing_type_returns_null:
  "\<not> truthy (js_get cfg ''type'') \<Longrightarrow>
   resolveDebugConfigurationWithSubstitutedVariables env folder cfg
     = \<lparr>effects = [], configuration = cfg, control = Return ReturnsNull\<rparr>"
  by (rule resolve_missing_type)

theorem C6_witness:
  "\<not> truthy (js_get [(''request'', JString ''launch''), (''program'', JString ''app.dll'')] ''type'')
   \<and> resolveDebugConfigurationWithSubstitutedVariables
         (exampleEnvironment windows (JObject []) (Inr None)) (Some ''/work'')
         [(''request'', JString ''launch''), (''program'', JString ''app.dll'')]
       = \<lparr>effects = [],
          configuration = [(''request'', JString ''launch''), (''program'', JString ''app.dll'')],
          control = Return ReturnsNull\<rparr>"
proof -
  have h: "\<not> truthy (js_get [(''request'', JString ''launch''), (''program'', JString ''app.dll'')] ''type'')"
    by (simp add: js_get_def)
  from C6_missing_type_returns_null [OF h] h show ?thesis
    by blast
qed


text \<open>
  Claim C2. On Linux, with a remote name, or in the Web user interface, the resolution
  never starts the certificate check, whatever the configuration holds, a
  \<^verbatim>\<open>checkForDevCert\<close> of \<^verbatim>\<open>true\<close> included, and whichever way the resolution ends.
\<close>

theorem C2_no_certificate_check_when_excluded:
  assumes "isLinux (platformInformation env) \<or> hasRemoteName env \<or> uiKind env = Web"
  shows "CheckForDevCerts path
           \<notin> set (effects (resolveDebugConfigurationWithSubstitutedVariables env folder cfg))"
proof -
  have closed: "effects (resolveDevCert env c) = []" for c
    using assms by (auto simp: resolveDevCert_def continue_def)
  have launch: "CheckForDevCerts path \<notin> set (effects (resolveLaunch env folder c))" for c
    using resolveLaunch_effects by blast
  show ?thesis
    by (simp add: resolve_unfold Let_def closed launch resolveAttach_effects)
qed

theorem C2_witness:
  "(isLinux (platformInformation (exampleEnvironment linux (JObject []) (Inr None)))
      \<or> hasRemoteName (exampleEnvironment linux (JObject []) (Inr None))
      \<or> uiKind (exampleEnvironment linux (JObject []) (Inr None)) = Web)
   \<and> CheckForDevCerts ''dotnet''
         \<notin> set (effects (resolveDebugConfigurationWithSubstitutedVariables
                           (exampleEnvironment linux (JObject []) (Inr None)) (Some ''/work'')
                           [(''type'', JString ''coreclr''), (''request'', JString ''launch''),
                            (''checkForDevCert'', JBool True)]))"
proof -
  have h: "isLinux (platformInformation (exampleEnvironment linux (JObject []) (Inr None)))
      \<or> hasRemoteName (exampleEnvironment linux (JObject []) (Inr None))
      \<or> uiKind (exampleEnvironment linux (JObject []) (Inr None)) = Web"
    by (simp add: exampleEnvironment_def linux_def)
  from C2_no_certificate_check_when_excluded [OF h] h show ?thesis
    by blast
qed

lemma attached_skip:
  assumes "\<not> (js_get cfg ''request'' = JString ''attach''
              \<and> \<not> truthy (js_get cfg ''processId'') \<and> \<not> truthy (js_get cfg ''processName''))"
  shows "attached env folder cfg = continue (configuration (launched env folder cfg))"
  unfolding attached_def
  by (rule resolveAttach_skip) (use assms in \<open>simp add: launched_get\<close>)

lemma final_frame_no_picker:
  assumes "\<not> (js_get cfg ''request'' = JString ''attach''
              \<and> \<not> truthy (js_get cfg ''processId'') \<and> \<not> truthy (js_get cfg ''processName''))"
    and "k \<noteq> ''brokeredServicePipeName''" "k \<noteq> ''cwd''" "k \<noteq> ''internalConsoleOptions''"
    "k \<noteq> ''env''" "k \<noteq> ''envFile''" "k \<noteq> ''checkForDevCert''"
  shows "map_of (configuration (resolveDebugConfigurationWithSubstitutedVariables env folder cfg)) k
           = map_of cfg k"
proof -
  have L: "map_of (configuration (launched env folder cfg)) k = map_of cfg k"
    using assms(2-6) by (rule launched_frame)
  have A: "configuration (attached env folder cfg) = configuration (launched env folder cfg)"
    by (simp add: attached_skip [OF assms(1)] continue_def)
  show ?thesis
  proof (cases env folder cfg rule: resolve_cases)
    case missing_type
    then show ?thesis by simp
  next
    case launch_stops
    show ?thesis
      unfolding launch_stops(3) by (rule L)
  next
    case attach_stops
    show ?thesis
      by (simp add: attach_stops(4) A L)
  next
    case completes
    show ?thesis
      using assms(7) by (simp add: completes(4) resolveDevCert_frame A L)
  qed
qed

text \<open>
  Claim C3, as stated: an attach request on which \<^verbatim>\<open>processId\<close> or \<^verbatim>\<open>processName\<close> is
  already set keeps both and shows no picker. It does not hold for a property that is
  present with a value that counts as false: line 73 tests \<^verbatim>\<open>!debugConfiguration.processId\<close>,
  so with a \<^verbatim>\<open>processId\<close> that is the empty string the picker is shown and the selected
  process replaces it.
\<close>

theorem C3_counterexample:
  "map_of [(''type'', JString ''coreclr''), (''request'', JString ''attach''),
           (''processId'', JString '''')] ''processId'' = Some (JString '''')
   \<and> js_get [(''type'', JString ''coreclr''), (''request'', JString ''attach''),
           (''processId'', JString '''')] ''request'' = JString ''attach''
   \<and> pickerShown (resolveDebugConfigurationWithSubstitutedVariables
         (exampleEnvironment windows (JObject []) (Inr (Some \<lparr>id' = ''10'', flags = 0\<rparr>))) None
         [(''type'', JString ''coreclr''), (''request'', JString ''attach''),
          (''processId'', JString '''')])
   \<and> map_of (configuration (resolveDebugConfigurationWithSubstitutedVariables
         (exampleEnvironment windows (JObject []) (Inr (Some \<lparr>id' = ''10'', flags = 0\<rparr>))) None
         [(''type'', JString ''coreclr''), (''request'', JString ''attach''),
          (''processId'', JString '''')])) ''processId'' = Some (JString ''10'')"
  by code_simp

text \<open>
  Claim C3, amended. For an attach request on which \<^verbatim>\<open>processId\<close> or \<^verbatim>\<open>processName\<close>
  holds a value that counts as true (a non-empty string, a number other than \<^verbatim>\<open>0\<close>,
  \<^verbatim>\<open>true\<close>, an object or an array), the resolution leaves both properties as they were
  given, whichever way it ends, and shows no process picker.
\<close>

theorem C3_attach_with_process_untouched:
  assumes "js_get cfg ''request'' = JString ''attach''"
    and "truthy (js_get cfg ''processId'') \<or> truthy (js_get cfg ''processName'')"
  shows "map_of (configuration (resolveDebugConfigurationWithSubstitutedVariables env folder cfg))
             ''processId'' = map_of cfg ''processId''
         \<and> map_of (configuration (resolveDebugConfigurationWithSubstitutedVariables env folder cfg))
             ''processName'' = map_of cfg ''processName''
         \<and> \<not> pickerShown (resolveDebugConfigurationWithSubstitutedVariables env folder cfg)"
proof -
  have skip: "\<not> (js_get cfg ''request'' = JString ''attach''
              \<and> \<not> truthy (js_get cfg ''processId'') \<and> \<not> truthy (js_get cfg ''processName''))"
    using assms(2) by blast
  have "map_of (configuration (resolveDebugConfigurationWithSubstitutedVariables env folder cfg))
             ''processId'' = map_of cfg ''processId''"
    by (rule final_frame_no_picker [OF skip]) simp_all
  moreover
  have "map_of (configuration (resolveDebugConfigurationWithSubstitutedVariables env folder cfg))
             ''processName'' = map_of cfg ''processName''"
    by (rule final_frame_no_picker [OF skip]) simp_all
  moreover
  have "\<not> pickerShown (resolveDebugConfigurationWithSubstitutedVariables env folder cfg)"
    using skip by (simp add: pickerShown_iff)
  ultimately show ?thesis
    by blast
qed

theorem C3_witness:
  "js_get [(''type'', JString ''coreclr''), (''request'', JString ''attach''),
           (''processId'', JString ''4242'')] ''request'' = JString ''attach''
   \<and> (truthy (js_get [(''type'', JString ''coreclr''), (''request'', JString ''attach''),
                      (''processId'', JString ''4242'')] ''processId'')
        \<or> truthy (js_get [(''type'', JString ''coreclr''), (''request'', JString ''attach''),
                      (''processId'', JString ''4242'')] ''processName''))
   \<and> map_of (configuration (resolveDebugConfigurationWithSubstitutedVariables
                (exampleEnvironment windows (JObject []) (Inr None)) None
                [(''type'', JString ''coreclr''), (''request'', JString ''attach''),
                 (''processId'', JString ''4242'')])) ''processId'' = Some (JString ''4242'')
   \<and> \<not> pickerShown (resolveDebugConfigurationWithSubstitutedVariables
                (exampleEnvironment windows (JObject []) (Inr None)) None
                [(''type'', JString ''coreclr''), (''request'', JString ''attach''),
                 (''processId'', JString ''4242'')])"
proof -
  let ?cfg = "[(''type'', JString ''coreclr''), (''request'', JString ''attach''),
               (''processId'', JString ''4242'')]"
  have h1: "js_get ?cfg ''request'' = JString ''attach''"
    by (simp add: js_get_def)
  have h2: "truthy (js_get ?cfg ''processId'') \<or> truthy (js_get ?cfg ''processName'')"
    by (simp add: js_get_def)
  have m: "map_of ?cfg ''processId'' = Some (JString ''4242'')"
    by simp
  from C3_attach_with_process_untouched [OF h1 h2, of "exampleEnvironment windows (JObject []) (Inr None)" None]
  show ?thesis
    using h1 h2 unfolding m by blast
qed

lemma attached_picker:
  assumes "js_get cfg ''request'' = JString ''attach''"
    and "\<not> truthy (js_get cfg ''processId'')" and "\<not> truthy (js_get cfg ''processName'')"
  shows "attached env folder cfg =
     (case pickerAnswer env cfg of
        Inl e \<Rightarrow>
          \<lparr>effects = [if truthy (js_get cfg ''pipeTransport'')
                       then RemoteShowAttachEntries else LocalShowAttachEntries],
           configuration = configuration (setBrokeredServicePipeName env cfg),
           control = Throw e\<rparr>
      | Inr None \<Rightarrow>
          \<lparr>effects = [if truthy (js_get cfg ''pipeTransport'')
                       then RemoteShowAttachEntries else LocalShowAttachEntries,
                      ShowErrorMessage ''No process was selected.'' True],
           configuration = configuration (setBrokeredServicePipeName env cfg),
           control = Return ReturnsUndefined\<rparr>
      | Inr (Some process) \<Rightarrow>
          \<lparr>effects = [if truthy (js_get cfg ''pipeTransport'')
                       then RemoteShowAttachEntries else LocalShowAttachEntries],
           configuration =
             inferTargetArchitecture env process
               (js_set (configuration (setBrokeredServicePipeName env cfg)) ''processId''
                  (JString (id' process))),
           control = Continue\<rparr>)"
proof -
  have L: "launched env folder cfg = continue (configuration (setBrokeredServicePipeName env cfg))"
    by (rule launched_other_request) (simp add: assms(1))
  show ?thesis
    using assms
    by (simp add: attached_def L continue_def resolveAttach_def Let_def pickerAnswer_def
          setBrokeredServicePipeName_get split: sum.splits option.splits)
qed

lemma launched_attach_continues:
  assumes "js_get cfg ''request'' = JString ''attach''"
  shows "control (launched env folder cfg) = Continue" "effects (launched env folder cfg) = []"
proof -
  have L: "launched env folder cfg = continue (configuration (setBrokeredServicePipeName env cfg))"
    by (rule launched_other_request) (simp add: assms(1))
  show "control (launched env folder cfg) = Continue" "effects (launched env folder cfg) = []"
    by (simp_all add: L continue_def)
qed

text \<open>
  Claim C5. For an attach request without \<^verbatim>\<open>processId\<close> and \<^verbatim>\<open>processName\<close>, when the
  picker is shown and answers with no process, the resolution shows the modal error
  message and returns \<^verbatim>\<open>undefined\<close>. (The picker is shown for every such request that
  has a type; without a type the resolution has returned before.)
\<close>

theorem C5_no_process_selected_aborts:
  assumes "js_get cfg ''request'' = JString ''attach''"
    and "\<not> truthy (js_get cfg ''processId'')" and "\<not> truthy (js_get cfg ''processName'')"
    and "pickerShown (resolveDebugConfigurationWithSubstitutedVariables env folder cfg)"
    and "pickerAnswer env cfg = Inr None"
  shows "ShowErrorMessage ''No process was selected.'' True
           \<in> set (effects (resolveDebugConfigurationWithSubstitutedVariables env folder cfg))
         \<and> control (resolveDebugConfigurationWithSubstitutedVariables env folder cfg)
             = Return ReturnsUndefined"
proof -
  have type: "truthy (js_get cfg ''type'')"
    using assms(4) by (simp add: pickerShown_iff)
  have A: "attached env folder cfg =
          \<lparr>effects = [if truthy (js_get cfg ''pipeTransport'')
                       then RemoteShowAttachEntries else LocalShowAttachEntries,
                      ShowErrorMessage ''No process was selected.'' True],
           configuration = configuration (setBrokeredServicePipeName env cfg),
           control = Return ReturnsUndefined\<rparr>"
    by (simp add: attached_picker [OF assms(1-3)] assms(5))
  show ?thesis
  proof (cases env folder cfg rule: resolve_cases)
    case missing_type
    with type show ?thesis by simp
  next
    case launch_stops
    with launched_attach_continues(1) [OF assms(1)] show ?thesis by simp
  next
    case attach_stops
    show ?thesis
      by (simp add: attach_stops(4) A)
  next
    case completes
    then show ?thesis
      by (simp add: A)
  qed
qed

theorem C5_witness:
  "js_get [(''type'', JString ''coreclr''), (''request'', JString ''attach'')] ''request''
      = JString ''attach''
   \<and> \<not> truthy (js_get [(''type'', JString ''coreclr''), (''request'', JString ''attach'')] ''processId'')
   \<and> \<not> truthy (js_get [(''type'', JString ''coreclr''), (''request'', JString ''attach'')] ''processName'')
   \<and> pickerShown (resolveDebugConfigurationWithSubstitutedVariables
         (exampleEnvironment windows (JObject []) (Inr None)) None
         [(''type'', JString ''coreclr''), (''request'', JString ''attach'')])
   \<and> pickerAnswer (exampleEnvironment windows (JObject []) (Inr None))
         [(''type'', JString ''coreclr''), (''request'', JString ''attach'')] = Inr None
   \<and> ShowErrorMessage ''No process was selected.'' True
         \<in> set (effects (resolveDebugConfigurationWithSubstitutedVariables
               (exampleEnvironment windows (JObject []) (Inr None)) None
               [(''type'', JString ''coreclr''), (''request'', JString ''attach'')]))
   \<and> control (resolveDebugConfigurationWithSubstitutedVariables
         (exampleEnvironment windows (JObject []) (Inr None)) None
         [(''type'', JString ''coreclr''), (''request'', JString ''attach'')])
       = Return ReturnsUndefined"
proof -
  let ?cfg = "[(''type'', JString ''coreclr''), (''request'', JString ''attach'')]"
  let ?env = "exampleEnvironment windows (JObject []) (Inr None)"
  have h1: "js_get ?cfg ''request'' = JString ''attach''"
    by (simp add: js_get_def)
  have h2: "\<not> truthy (js_get ?cfg ''processId'')"
    by (simp add: js_get_def)
  have h3: "\<not> truthy (js_get ?cfg ''processName'')"
    by (simp add: js_get_def)
  have h4: "pickerShown (resolveDebugConfigurationWithSubstitutedVariables ?env None ?cfg)"
    unfolding pickerShown_iff by (simp add: js_get_def)
  have h5: "pickerAnswer ?env ?cfg = Inr None"
    by (simp add: pickerAnswer_def exampleEnvironment_def js_get_def)
  from C5_no_process_selected_aborts [OF h1 h2 h3 h4 h5] h1 h2 h3 h4 h5
  show ?thesis
    by blast
qed

lemma inferTargetArchitecture_result:
  "map_of (inferTargetArchitecture env process c) ''targetArchitecture'' =
     (if js_loose_eq_string (js_get c ''type'') ''coreclr''
           \<and> isMacOS (platformInformation env)
           \<and> architecture (platformInformation env) = ''arm64''
      then Some (JString (if bit (flags process) 17 then ''x86_64'' else ''arm64''))
      else map_of c ''targetArchitecture'')"
  by (simp add: inferTargetArchitecture_def map_of_js_set js_bitand_P_TRANSLATED)

lemma resolve_process_selected:
  assumes "js_get cfg ''request'' = JString ''attach''"
    and "pickerShown (resolveDebugConfigurationWithSubstitutedVariables env folder cfg)"
    and "pickerAnswer env cfg = Inr (Some process)"
  shows "map_of (configuration (resolveDebugConfigurationWithSubstitutedVariables env folder cfg))
           ''targetArchitecture''
         = (if js_loose_eq_string (js_get cfg ''type'') ''coreclr''
                 \<and> isMacOS (platformInformation env)
                 \<and> architecture (platformInformation env) = ''arm64''
            then Some (JString (if bit (flags process) 17 then ''x86_64'' else ''arm64''))
            else map_of cfg ''targetArchitecture'')"
proof -
  let ?B = "configuration (setBrokeredServicePipeName env cfg)"
  let ?P = "js_set ?B ''processId'' (JString (id' process))"
  have shown: "truthy (js_get cfg ''type'')" "\<not> truthy (js_get cfg ''processId'')"
    "\<not> truthy (js_get cfg ''processName'')"
    using assms(2) by (simp_all add: pickerShown_iff)
  have A: "attached env folder cfg =
          \<lparr>effects = [if truthy (js_get cfg ''pipeTransport'')
                       then RemoteShowAttachEntries else LocalShowAttachEntries],
           configuration = inferTargetArchitecture env process ?P,
           control = Continue\<rparr>"
    by (simp add: attached_picker [OF assms(1) shown(2,3)] assms(3))
  have type: "js_get ?P ''type'' = js_get cfg ''type''"
    by (simp add: js_get_js_set setBrokeredServicePipeName_get)
  have arch: "map_of ?P ''targetArchitecture'' = map_of cfg ''targetArchitecture''"
    by (simp add: map_of_js_set setBrokeredServicePipeName_frame)
  have inferred: "map_of (inferTargetArchitecture env process ?P) ''targetArchitecture''
         = (if js_loose_eq_string (js_get cfg ''type'') ''coreclr''
                 \<and> isMacOS (platformInformation env)
                 \<and> architecture (platformInformation env) = ''arm64''
            then Some (JString (if bit (flags process) 17 then ''x86_64'' else ''arm64''))
            else map_of cfg ''targetArchitecture'')"
    by (simp only: inferTargetArchitecture_result type arch)
  show ?thesis
  proof (cases env folder cfg rule: resolve_cases)
    case missing_type
    with shown(1) show ?thesis by simp
  next
    case launch_stops
    with launched_attach_continues(1) [OF assms(1)] show ?thesis by simp
  next
    case attach_stops
    then show ?thesis by (simp add: A)
  next
    case completes
    have "map_of (configuration (resolveDebugConfigurationWithSubstitutedVariables env folder cfg))
            ''targetArchitecture''
          = map_of (inferTargetArchitecture env process ?P) ''targetArchitecture''"
      by (simp add: completes(4) A resolveDevCert_frame)
    then show ?thesis
      by (simp only: inferred)
  qed
qed

text \<open>
  Claim C4. When the resolution of an attach request shows the picker and a process is
  selected: for the type \<^verbatim>\<open>coreclr\<close> on macOS with the architecture \<^verbatim>\<open>arm64\<close>, the
  target architecture becomes \<^verbatim>\<open>x86_64\<close> if bit 17 (\<^verbatim>\<open>0x20000\<close>) of the flags of the
  process is set and \<^verbatim>\<open>arm64\<close> otherwise; on any other platform or architecture the
  property \<^verbatim>\<open>targetArchitecture\<close> is as it was given.
\<close>

theorem C4_target_architecture_of_selected_process:
  assumes "js_get cfg ''request'' = JString ''attach''"
    and "pickerShown (resolveDebugConfigurationWithSubstitutedVariables env folder cfg)"
    and "pickerAnswer env cfg = Inr (Some process)"
  shows "(js_get cfg ''type'' = JString ''coreclr'' \<and> isMacOS (platformInformation env)
            \<and> architecture (platformInformation env) = ''arm64''
          \<longrightarrow> map_of (configuration
                  (resolveDebugConfigurationWithSubstitutedVariables env folder cfg))
                ''targetArchitecture''
              = Some (JString (if bit (flags process) 17 then ''x86_64'' else ''arm64'')))
       \<and> (\<not> (isMacOS (platformInformation env)
               \<and> architecture (platformInformation env) = ''arm64'')
          \<longrightarrow> map_of (configuration
                  (resolveDebugConfigurationWithSubstitutedVariables env folder cfg))
                ''targetArchitecture''
              = map_of cfg ''targetArchitecture'')"
  unfolding resolve_process_selected [OF assms] by auto

theorem C4_witness:
  "js_get [(''type'', JString ''coreclr''), (''request'', JString ''attach'')] ''request''
      = JString ''attach''
   \<and> pickerShown (resolveDebugConfigurationWithSubstitutedVariables
         (exampleEnvironment appleSilicon (JObject [])
            (Inr (Some \<lparr>id' = ''4242'', flags = 131076\<rparr>))) None
         [(''type'', JString ''coreclr''), (''request'', JString ''attach'')])
   \<and> pickerAnswer
         (exampleEnvironment appleSilicon (JObject [])
            (Inr (Some \<lparr>id' = ''4242'', flags = 131076\<rparr>)))
         [(''type'', JString ''coreclr''), (''request'', JString ''attach'')]
       = Inr (Some \<lparr>id' = ''4242'', flags = 131076\<rparr>)
   \<and> map_of (configuration (resolveDebugConfigurationWithSubstitutedVariables
         (exampleEnvironment appleSilicon (JObject [])
            (Inr (Some \<lparr>id' = ''4242'', flags = 131076\<rparr>))) None
         [(''type'', JString ''coreclr''), (''request'', JString ''attach'')]))
       ''targetArchitecture'' = Some (JString ''x86_64'')"
proof -
  let ?cfg = "[(''type'', JString ''coreclr''), (''request'', JString ''attach'')]"
  let ?p = "\<lparr>id' = ''4242'', flags = 131076\<rparr>"
  let ?env = "exampleEnvironment appleSilicon (JObject []) (Inr (Some ?p))"
  have h1: "js_get ?cfg ''request'' = JString ''attach''"
    by (simp add: js_get_def)
  have h2: "pickerShown (resolveDebugConfigurationWithSubstitutedVariables ?env None ?cfg)"
    unfolding pickerShown_iff by (simp add: js_get_def)
  have h3: "pickerAnswer ?env ?cfg = Inr (Some ?p)"
    by (simp add: pickerAnswer_def exampleEnvironment_def js_get_def)
  have t: "js_get ?cfg ''type'' = JString ''coreclr''"
    by (simp add: js_get_def)
  have m: "isMacOS (platformInformation ?env) \<and> architecture (platformInformation ?env) = ''arm64''"
    by (simp add: exampleEnvironment_def appleSilicon_def)
  have b: "bit (flags ?p) 17"
    by (simp add: bit_iff_odd)
  from C4_target_architecture_of_selected_process [OF h1 h2 h3] t m b
  have "map_of (configuration (resolveDebugConfigurationWithSubstitutedVariables ?env None ?cfg))
          ''targetArchitecture'' = Some (JString ''x86_64'')"
    by simp
  with h1 h2 h3 show ?thesis
    by blast
qed

subsection \<open>The certificate step at the end of a resolution\<close>

lemma attached_get:
  assumes "k = ''pipeTransport'' \<or> k = ''type'' \<or> k = ''checkForDevCert'' \<or> k = ''serverReadyAction''"
  shows "js_get (configuration (attached env folder cfg)) k = js_get cfg k"
proof (rule js_get_cong, rule attached_frame)
  show "k \<noteq> ''brokeredServicePipeName''" using assms by auto
  show "k \<noteq> ''cwd''" using assms by auto
  show "k \<noteq> ''internalConsoleOptions''" using assms by auto
  show "k \<noteq> ''env''" using assms by auto
  show "k \<noteq> ''envFile''" using assms by auto
  show "k \<noteq> ''processId''" using assms by auto
  show "k \<noteq> ''targetArchitecture''" using assms by auto
qed

lemma resolve_checkForDevCert:
  "map_of (configuration (resolveDebugConfigurationWithSubstitutedVariables env folder cfg))
       ''checkForDevCert''
     = (if control (resolveDebugConfigurationWithSubstitutedVariables env folder cfg)
             = Return ReturnsConfiguration
           \<and> devCertGate env cfg \<and> js_get cfg ''checkForDevCert'' = JUndefined
           \<and> truthy (js_get cfg ''serverReadyAction'') \<and> js_get cfg ''type'' = JString ''coreclr''
        then Some (JBool True) else map_of cfg ''checkForDevCert'')"
proof (cases env folder cfg rule: resolve_cases)
  case missing_type
  then show ?thesis by simp
next
  case launch_stops
  have "map_of (configuration (launched env folder cfg)) ''checkForDevCert''
          = map_of cfg ''checkForDevCert''"
    by (rule launched_frame) simp_all
  then show ?thesis
    by (simp add: launch_stops(3) launched_control)
next
  case attach_stops
  have "map_of (configuration (attached env folder cfg)) ''checkForDevCert''
          = map_of cfg ''checkForDevCert''"
    by (rule attached_frame) simp_all
  then show ?thesis
    by (simp add: attach_stops(4) attached_control)
next
  case completes
  let ?A = "configuration (attached env folder cfg)"
  have gate: "devCertGate env ?A = devCertGate env cfg"
    by (simp add: devCertGate_def attached_get)
  have same: "map_of ?A ''checkForDevCert'' = map_of cfg ''checkForDevCert''"
    by (rule attached_frame) simp_all
  show ?thesis
    by (simp add: completes(4) resolveDevCert_checkForDevCert gate same attached_get)
qed


text \<open>
  Claim C10, as stated: whenever the step is open, the resolution sets \<^verbatim>\<open>checkForDevCert\<close>
  on every configuration with a server ready action, the type \<^verbatim>\<open>coreclr\<close> and no
  \<^verbatim>\<open>checkForDevCert\<close> of its own. It does not hold for a resolution that ends before the
  step: an attach request for which no process is selected returns \<^verbatim>\<open>undefined\<close> from
  line 102, and the property is never written.
\<close>

theorem C10_counterexample:
  "devCertGate (exampleEnvironment windows (JObject []) (Inr None))
       [(''type'', JString ''coreclr''), (''request'', JString ''attach''),
        (''serverReadyAction'', JObject [(''action'', JString ''openExternally'')])]
   \<and> js_get [(''type'', JString ''coreclr''), (''request'', JString ''attach''),
        (''serverReadyAction'', JObject [(''action'', JString ''openExternally'')])]
        ''checkForDevCert'' = JUndefined
   \<and> truthy (js_get [(''type'', JString ''coreclr''), (''request'', JString ''attach''),
        (''serverReadyAction'', JObject [(''action'', JString ''openExternally'')])]
        ''serverReadyAction'')
   \<and> js_get [(''type'', JString ''coreclr''), (''request'', JString ''attach''),
        (''serverReadyAction'', JObject [(''action'', JString ''openExternally'')])]
        ''type'' = JString ''coreclr''
   \<and> control (resolveDebugConfigurationWithSubstitutedVariables
         (exampleEnvironment windows (JObject []) (Inr None)) None
         [(''type'', JString ''coreclr''), (''request'', JString ''attach''),
          (''serverReadyAction'', JObject [(''action'', JString ''openExternally'')])])
       = Return ReturnsUndefined
   \<and> map_of (configuration (resolveDebugConfigurationWithSubstitutedVariables
         (exampleEnvironment windows (JObject []) (Inr None)) None
         [(''type'', JString ''coreclr''), (''request'', JString ''attach''),
          (''serverReadyAction'', JObject [(''action'', JString ''openExternally'')])]))
       ''checkForDevCert'' = None"
  by code_simp

text \<open>
  Claim C10, amended. The property \<^verbatim>\<open>checkForDevCert\<close> becomes \<^verbatim>\<open>true\<close> exactly when the
  resolution runs to its end (it returns the configuration), the step is open (not
  Linux, no remote name, not the Web user interface, no \<^verbatim>\<open>pipeTransport\<close>), and the
  configuration has no \<^verbatim>\<open>checkForDevCert\<close>, a server ready action and the type
  \<^verbatim>\<open>coreclr\<close>; in every other case, a resolution that returns early or throws
  included, the property is as it was given.
\<close>

theorem C10_checkForDevCert_set_when_completed:
  "map_of (configuration (resolveDebugConfigurationWithSubstitutedVariables env folder cfg))
       ''checkForDevCert''
     = (if control (resolveDebugConfigurationWithSubstitutedVariables env folder cfg)
             = Return ReturnsConfiguration
           \<and> devCertGate env cfg \<and> js_get cfg ''checkForDevCert'' = JUndefined
           \<and> truthy (js_get cfg ''serverReadyAction'') \<and> js_get cfg ''type'' = JString ''coreclr''
        then Some (JBool True) else map_of cfg ''checkForDevCert'')"
  by (rule resolve_checkForDevCert)

theorem C10_witness:
  "control (resolveDebugConfigurationWithSubstitutedVariables
       (exampleEnvironment windows (JObject []) (Inr None)) (Some ''/work'')
       [(''type'', JString ''coreclr''), (''request'', JString ''launch''),
        (''serverReadyAction'', JObject [(''action'', JString ''openExternally'')])])
     = Return ReturnsConfiguration
   \<and> map_of (configuration (resolveDebugConfigurationWithSubstitutedVariables
       (exampleEnvironment windows (JObject []) (Inr None)) (Some ''/work'')
       [(''type'', JString ''coreclr''), (''request'', JString ''launch''),
        (''serverReadyAction'', JObject [(''action'', JString ''openExternally'')])]))
       ''checkForDevCert'' = Some (JBool True)"
proof -
  let ?env = "exampleEnvironment windows (JObject []) (Inr None)"
  let ?cfg = "[(''type'', JString ''coreclr''), (''request'', JString ''launch''),
               (''serverReadyAction'', JObject [(''action'', JString ''openExternally'')])]"
  have c: "control (resolveDebugConfigurationWithSubstitutedVariables ?env (Some ''/work'') ?cfg)
             = Return ReturnsConfiguration"
    by code_simp
  have g: "devCertGate ?env ?cfg"
    by code_simp
  have p: "js_get ?cfg ''checkForDevCert'' = JUndefined \<and> truthy (js_get ?cfg ''serverReadyAction'')
           \<and> js_get ?cfg ''type'' = JString ''coreclr''"
    by (simp add: js_get_def)
  have "map_of (configuration (resolveDebugConfigurationWithSubstitutedVariables
                  ?env (Some ''/work'') ?cfg)) ''checkForDevCert'' = Some (JBool True)"
    unfolding C10_checkForDevCert_set_when_completed [of ?env "Some ''/work''" ?cfg]
    using c g p by simp
  with c show ?thesis
    by blast
qed

section \<open>Properties of the settings merge\<close>

text \<open>The copy of a JSON value is the value itself.\<close>

lemma JSON_copy_json:
  "is_json v \<Longrightarrow> JSON_copy v = v"
  "is_json_elements xs \<Longrightarrow> JSON_copy_elements xs = xs"
  "is_json_properties kvs \<Longrightarrow> JSON_copy_properties kvs = kvs"
  by (induction v and xs and kvs rule: JSON_copy_JSON_copy_elements_JSON_copy_properties.induct)
     auto

lemma CheckIfSettingIsEmpty_value:
  "v \<noteq> JNull \<Longrightarrow> v \<noteq> JUndefined \<Longrightarrow> CheckIfSettingIsEmpty v = Inr (emptySetting v)"
  by (cases v) (simp_all add: CheckIfSettingIsEmpty_def Object_keys_def emptySetting_def)

lemma hasOwnProperty_builtin:
  "\<not> isOwnProperty obj ''hasOwnProperty'' \<Longrightarrow>
   hasOwnProperty obj ObjectPrototype key = Inr (isOwnProperty obj key)"
  by (simp add: hasOwnProperty_def)

lemma js_assign_own:
  "key \<noteq> ''__proto__'' \<Longrightarrow> js_assign obj proto key v = (js_set obj key v, proto)"
  by (simp add: js_assign_def)

lemma isOwnProperty_js_set:
  "isOwnProperty (js_set obj k v) k' \<longleftrightarrow> k' = k \<or> isOwnProperty obj k'"
  by (simp add: isOwnProperty_def map_of_js_set)

text \<open>
  One step of the loop, for a key that is neither \<^verbatim>\<open>__proto__\<close> nor \<^verbatim>\<open>hasOwnProperty\<close>
  and an object with the built-in method and prototype.
\<close>

lemma loop_step:
  assumes "js_index result k \<noteq> JNull" "js_index result k \<noteq> JUndefined"
    and "k \<noteq> ''__proto__''" and "\<not> isOwnProperty cfg ''hasOwnProperty''"
  shows "loadSettingDebugOptions_loop result (k # keys) cfg ObjectPrototype =
     loadSettingDebugOptions_loop result keys
       (if isOwnProperty cfg k \<or> k = ''console'' \<or> emptySetting (js_index result k)
        then cfg else js_set cfg k (js_index result k))
       ObjectPrototype"
  using assms
  by (simp add: hasOwnProperty_builtin CheckIfSettingIsEmpty_value js_assign_own Let_def)

lemma loop_merge:
  assumes "\<forall>k \<in> set keys. js_index result k \<noteq> JNull \<and> js_index result k \<noteq> JUndefined"
    and "''__proto__'' \<notin> set keys" and "''hasOwnProperty'' \<notin> set keys"
    and "\<not> isOwnProperty cfg ''hasOwnProperty''"
  shows "\<exists>cfg'. loadSettingDebugOptions_loop result keys cfg ObjectPrototype
                  = ((cfg', ObjectPrototype), None)
          \<and> (\<forall>key. map_of cfg' key =
                (case map_of cfg key of
                   Some v \<Rightarrow> Some v
                 | None \<Rightarrow>
                     if key \<in> set keys \<and> key \<noteq> ''console''
                          \<and> \<not> emptySetting (js_index result key)
                     then Some (js_index result key) else None))"
  using assms
proof (induction keys arbitrary: cfg)
  case Nil
  show ?case
    by (simp split: option.splits)
next
  case (Cons k keys)
  let ?next = "if isOwnProperty cfg k \<or> k = ''console'' \<or> emptySetting (js_index result k)
               then cfg else js_set cfg k (js_index result k)"
  have step: "loadSettingDebugOptions_loop result (k # keys) cfg ObjectPrototype =
                loadSettingDebugOptions_loop result keys ?next ObjectPrototype"
    using Cons.prems by (intro loop_step) auto
  have builtin: "\<not> isOwnProperty ?next ''hasOwnProperty''"
    using Cons.prems by (auto simp: isOwnProperty_js_set)
  from Cons.IH [OF _ _ _ builtin] Cons.prems
  obtain cfg' where run: "loadSettingDebugOptions_loop result keys ?next ObjectPrototype
                            = ((cfg', ObjectPrototype), None)"
    and merged: "\<And>key. map_of cfg' key =
                (case map_of ?next key of
                   Some v \<Rightarrow> Some v
                 | None \<Rightarrow>
                     if key \<in> set keys \<and> key \<noteq> ''console''
                          \<and> \<not> emptySetting (js_index result key)
                     then Some (js_index result key) else None)"
    by auto
  have "map_of cfg' key =
          (case map_of cfg key of
             Some v \<Rightarrow> Some v
           | None \<Rightarrow>
               if key \<in> set (k # keys) \<and> key \<noteq> ''console''
                    \<and> \<not> emptySetting (js_index result key)
               then Some (js_index result key) else None)" for key
    unfolding merged
    by (auto simp: isOwnProperty_def map_of_js_set split: option.splits)
  with step run show ?case
    by simp
qed

lemma JSON_copy_not_null: "JSON_copy u = JNull \<longleftrightarrow> u = JNull"
  by (cases u) simp_all

lemma JSON_copy_not_undefined: "JSON_copy u = JUndefined \<longleftrightarrow> u = JUndefined"
  by (cases u) simp_all

lemma JSON_copy_properties_values:
  "(k, v) \<in> set (JSON_copy_properties kvs) \<Longrightarrow>
   \<exists>u. (k, u) \<in> set kvs \<and> u \<noteq> JUndefined \<and> v = JSON_copy u"
proof (induction kvs)
  case Nil
  then show ?case by simp
next
  case (Cons p kvs)
  obtain k' u' where p: "p = (k', u')"
    by (cases p)
  show ?case
  proof (cases "u' = JUndefined")
    case True
    with Cons p show ?thesis
      by fastforce
  next
    case False
    with Cons p show ?thesis
      by fastforce
  qed
qed

lemma JSON_copy_properties_keys:
  "k \<in> set (map fst (JSON_copy_properties kvs)) \<Longrightarrow> k \<in> fst ` set kvs"
proof -
  assume "k \<in> set (map fst (JSON_copy_properties kvs))"
  then obtain v where "(k, v) \<in> set (JSON_copy_properties kvs)"
    by auto
  then obtain u where "(k, u) \<in> set kvs"
    using JSON_copy_properties_values by blast
  then show ?thesis
    by force
qed

lemma js_index_object:
  "js_index (JObject kvs) k = (case map_of kvs k of None \<Rightarrow> JUndefined | Some v \<Rightarrow> v)"
  by (simp add: js_index_def)

lemma copied_settings_defined:
  assumes "JNull \<notin> snd ` set settings" and "k \<in> set (map fst (JSON_copy_properties settings))"
  shows "js_index (JObject (JSON_copy_properties settings)) k \<noteq> JNull
       \<and> js_index (JObject (JSON_copy_properties settings)) k \<noteq> JUndefined"
proof -
  from assms(2) obtain v where v: "map_of (JSON_copy_properties settings) k = Some v"
    by (metis map_of_eq_None_iff not_Some_eq set_map)
  then have "(k, v) \<in> set (JSON_copy_properties settings)"
    by (rule map_of_SomeD)
  then obtain u where u: "(k, u) \<in> set settings" "u \<noteq> JUndefined" "v = JSON_copy u"
    using JSON_copy_properties_values by blast
  from u(1) assms(1) have "u \<noteq> JNull"
    by force
  with u show ?thesis
    by (simp add: js_index_object v JSON_copy_not_null JSON_copy_not_undefined)
qed

lemma loadSettingDebugOptions_object:
  assumes "debugOptions env = JObject settings" and "JNull \<notin> snd ` set settings"
    and "''__proto__'' \<notin> fst ` set settings" and "''hasOwnProperty'' \<notin> fst ` set settings"
    and "''hasOwnProperty'' \<notin> fst ` set cfg"
  shows "\<exists>cfg'. loadSettingDebugOptions env cfg = ((cfg', ObjectPrototype), None)
          \<and> (\<forall>key. map_of cfg' key =
                (case map_of cfg key of
                   Some v \<Rightarrow> Some v
                 | None \<Rightarrow>
                     (case map_of (JSON_copy_properties settings) key of
                        Some v \<Rightarrow>
                          if key \<noteq> ''console'' \<and> \<not> emptySetting v then Some v else None
                      | None \<Rightarrow> None)))"
proof -
  let ?result = "JObject (JSON_copy_properties settings)"
  let ?keys = "map fst (JSON_copy_properties settings)"
  have run: "loadSettingDebugOptions env cfg
               = loadSettingDebugOptions_loop ?result ?keys cfg ObjectPrototype"
    by (simp add: loadSettingDebugOptions_def assms(1) JSON_parse_stringify_def Object_keys_def)
  have defined: "\<forall>k \<in> set ?keys. js_index ?result k \<noteq> JNull \<and> js_index ?result k \<noteq> JUndefined"
    using copied_settings_defined [OF assms(2)] by blast
  have proto: "''__proto__'' \<notin> set ?keys"
    using assms(3) JSON_copy_properties_keys by blast
  have unshadowed: "''hasOwnProperty'' \<notin> set ?keys"
    using assms(4) JSON_copy_properties_keys by blast
  have builtin: "\<not> isOwnProperty cfg ''hasOwnProperty''"
    using assms(5) by (simp add: isOwnProperty_def map_of_eq_None_iff)
  have present: "key \<in> set ?keys \<longleftrightarrow> map_of (JSON_copy_properties settings) key \<noteq> None" for key
    by (simp add: map_of_eq_None_iff)
  from loop_merge [OF defined proto unshadowed builtin]
  obtain cfg' where loop: "loadSettingDebugOptions_loop ?result ?keys cfg ObjectPrototype
                             = ((cfg', ObjectPrototype), None)"
    and merged: "\<And>key. map_of cfg' key =
                (case map_of cfg key of
                   Some v \<Rightarrow> Some v
                 | None \<Rightarrow>
                     if key \<in> set ?keys \<and> key \<noteq> ''console''
                          \<and> \<not> emptySetting (js_index ?result key)
                     then Some (js_index ?result key) else None)"
    by blast
  have "map_of cfg' key =
                (case map_of cfg key of
                   Some v \<Rightarrow> Some v
                 | None \<Rightarrow>
                     (case map_of (JSON_copy_properties settings) key of
                        Some v \<Rightarrow>
                          if key \<noteq> ''console'' \<and> \<not> emptySetting v then Some v else None
                      | None \<Rightarrow> None))" for key
    unfolding merged present
    by (auto simp: js_index_object split: option.splits)
  with run loop show ?thesis
    by simp
qed

lemma resolveDebugConfiguration_empty:
  "resolveDebugConfiguration env [] =
     \<lparr>effects = [], configuration = [],
      control = Return (if csharpDevKit env then ReturnsUndefined else ReturnsNull),
      prototype = ObjectPrototype\<rparr>"
  by (simp add: resolveDebugConfiguration_def)

lemma resolveDebugConfiguration_loaded:
  assumes "cfg \<noteq> []" and "loadSettingDebugOptions env cfg = ((cfg', proto), None)"
  shows "resolveDebugConfiguration env cfg =
     \<lparr>effects = [], configuration = cfg', control = Return ReturnsConfiguration,
      prototype = proto\<rparr>"
  using assms by (simp add: resolveDebugConfiguration_def)


text \<open>
  Claim C1, as stated: a setting is merged exactly when the configuration does not have
  its key and the key is not \<^verbatim>\<open>console\<close>. It does not hold: a setting whose value is
  empty (here the empty object of \<^verbatim>\<open>logging\<close>) is skipped by \<^verbatim>\<open>CheckIfSettingIsEmpty\<close>,
  although the configuration has no such key.
\<close>

theorem C1_counterexample:
  "map_of [(''justMyCode'', JBool True), (''logging'', JObject [])] ''logging'' = Some (JObject [])
   \<and> \<not> isOwnProperty [(''type'', JString ''coreclr''), (''request'', JString ''launch'')] ''logging''
   \<and> ''logging'' \<noteq> ''console''
   \<and> control (resolveDebugConfiguration
         (exampleEnvironment windows
            (JObject [(''justMyCode'', JBool True), (''logging'', JObject [])]) (Inr None))
         [(''type'', JString ''coreclr''), (''request'', JString ''launch'')])
       = Return ReturnsConfiguration
   \<and> map_of (configuration (resolveDebugConfiguration
         (exampleEnvironment windows
            (JObject [(''justMyCode'', JBool True), (''logging'', JObject [])]) (Inr None))
         [(''type'', JString ''coreclr''), (''request'', JString ''launch'')])) ''logging''
       = None"
  by code_simp


text \<open>
  Claim C1, amended. An empty configuration is returned from line 35 (\<^verbatim>\<open>undefined\<close> with
  the C# Dev Kit, \<^verbatim>\<open>null\<close> without) before any setting is read. For a configuration
  that is not empty and has no own property \<^verbatim>\<open>hasOwnProperty\<close>, and settings without
  \<^verbatim>\<open>null\<close> values and without the keys \<^verbatim>\<open>__proto__\<close> and \<^verbatim>\<open>hasOwnProperty\<close>,
  \<^verbatim>\<open>resolveDebugConfiguration\<close> returns the configuration, with its prototype untouched,
  in which a key of the configuration keeps its value, and any other key holds the value
  of the setting of that name exactly when there is such a setting, the key is not
  \<^verbatim>\<open>console\<close>, and the value is not the empty string, the empty array or the empty
  object. The value merged is the copy that \<^verbatim>\<open>JSON.parse(JSON.stringify(...))\<close> makes,
  which for settings written in JSON is the value itself (\<open>JSON_copy_json\<close>).
\<close>

theorem C1_settings_merged_unless_present_or_empty:
  "resolveDebugConfiguration env [] =
     \<lparr>effects = [], configuration = [],
      control = Return (if csharpDevKit env then ReturnsUndefined else ReturnsNull),
      prototype = ObjectPrototype\<rparr>
   \<and> (cfg \<noteq> [] \<and> debugOptions env = JObject settings
        \<and> JNull \<notin> snd ` set settings
        \<and> ''__proto__'' \<notin> fst ` set settings
        \<and> ''hasOwnProperty'' \<notin> fst ` set settings
        \<and> ''hasOwnProperty'' \<notin> fst ` set cfg
      \<longrightarrow> control (resolveDebugConfiguration env cfg) = Return ReturnsConfiguration
          \<and> prototype (resolveDebugConfiguration env cfg) = ObjectPrototype
          \<and> (\<forall>key. map_of (configuration (resolveDebugConfiguration env cfg)) key =
                (case map_of cfg key of
                   Some v \<Rightarrow> Some v
                 | None \<Rightarrow>
                     (case map_of (JSON_copy_properties settings) key of
                        Some v \<Rightarrow>
                          if key \<noteq> ''console'' \<and> \<not> emptySetting v then Some v else None
                      | None \<Rightarrow> None))))"
proof (intro conjI impI)
  show "resolveDebugConfiguration env [] =
     \<lparr>effects = [], configuration = [],
      control = Return (if csharpDevKit env then ReturnsUndefined else ReturnsNull),
      prototype = ObjectPrototype\<rparr>"
    by (rule resolveDebugConfiguration_empty)
next
  assume h: "cfg \<noteq> [] \<and> debugOptions env = JObject settings
        \<and> JNull \<notin> snd ` set settings
        \<and> ''__proto__'' \<notin> fst ` set settings
        \<and> ''hasOwnProperty'' \<notin> fst ` set settings
        \<and> ''hasOwnProperty'' \<notin> fst ` set cfg"
  then obtain cfg' where loaded: "loadSettingDebugOptions env cfg = ((cfg', ObjectPrototype), None)"
    and merged: "\<And>key. map_of cfg' key =
                (case map_of cfg key of
                   Some v \<Rightarrow> Some v
                 | None \<Rightarrow>
                     (case map_of (JSON_copy_properties settings) key of
                        Some v \<Rightarrow>
                          if key \<noteq> ''console'' \<and> \<not> emptySetting v then Some v else None
                      | None \<Rightarrow> None))"
    using loadSettingDebugOptions_object [of env settings cfg] by blast
  from h have out: "resolveDebugConfiguration env cfg =
     \<lparr>effects = [], configuration = cfg', control = Return ReturnsConfiguration,
      prototype = ObjectPrototype\<rparr>"
    using resolveDebugConfiguration_loaded [OF _ loaded] by blast
  show "control (resolveDebugConfiguration env cfg) = Return ReturnsConfiguration"
    by (simp add: out)
  show "prototype (resolveDebugConfiguration env cfg) = ObjectPrototype"
    by (simp add: out)
  show "\<forall>key. map_of (configuration (resolveDebugConfiguration env cfg)) key =
                (case map_of cfg key of
                   Some v \<Rightarrow> Some v
                 | None \<Rightarrow>
                     (case map_of (JSON_copy_properties settings) key of
                        Some v \<Rightarrow>
                          if key \<noteq> ''console'' \<and> \<not> emptySetting v then Some v else None
                      | None \<Rightarrow> None))"
    by (simp add: out merged)
qed

theorem C1_witness:
  "[(''type'', JString ''coreclr''), (''justMyCode'', JBool False)] \<noteq> []
   \<and> debugOptions (exampleEnvironment windows
         (JObject [(''justMyCode'', JBool True), (''stopAtEntry'', JBool True),
                   (''console'', JString ''internalConsole'')]) (Inr None))
       = JObject [(''justMyCode'', JBool True), (''stopAtEntry'', JBool True),
                  (''console'', JString ''internalConsole'')]
   \<and> JNull \<notin> snd ` set [(''justMyCode'', JBool True), (''stopAtEntry'', JBool True),
                           (''console'', JString ''internalConsole'')]
   \<and> ''__proto__'' \<notin> fst ` set [(''justMyCode'', JBool True), (''stopAtEntry'', JBool True),
                           (''console'', JString ''internalConsole'')]
   \<and> ''hasOwnProperty'' \<notin> fst ` set [(''justMyCode'', JBool True), (''stopAtEntry'', JBool True),
                           (''console'', JString ''internalConsole'')]
   \<and> ''hasOwnProperty'' \<notin> fst ` set [(''type'', JString ''coreclr''), (''justMyCode'', JBool False)]
   \<and> control (resolveDebugConfiguration
         (exampleEnvironment windows
            (JObject [(''justMyCode'', JBool True), (''stopAtEntry'', JBool True),
                      (''console'', JString ''internalConsole'')]) (Inr None))
         [(''type'', JString ''coreclr''), (''justMyCode'', JBool False)])
       = Return ReturnsConfiguration
   \<and> map_of (configuration (resolveDebugConfiguration
         (exampleEnvironment windows
            (JObject [(''justMyCode'', JBool True), (''stopAtEntry'', JBool True),
                      (''console'', JString ''internalConsole'')]) (Inr None))
         [(''type'', JString ''coreclr''), (''justMyCode'', JBool False)])) ''stopAtEntry''
       = Some (JBool True)"
proof -
  let ?settings = "[(''justMyCode'', JBool True), (''stopAtEntry'', JBool True),
                    (''console'', JString ''internalConsole'')]"
  let ?env = "exampleEnvironment windows (JObject ?settings) (Inr None)"
  let ?cfg = "[(''type'', JString ''coreclr''), (''justMyCode'', JBool False)]"
  have h1: "?cfg \<noteq> []"
    by simp
  have h2: "debugOptions ?env = JObject ?settings"
    by (simp add: exampleEnvironment_def)
  have h3: "JNull \<notin> snd ` set ?settings"
    by simp
  have h4: "''__proto__'' \<notin> fst ` set ?settings"
    by simp
  have h5: "''hasOwnProperty'' \<notin> fst ` set ?settings"
    by simp
  have h6: "''hasOwnProperty'' \<notin> fst ` set ?cfg"
    by simp
  have v: "(case map_of ?cfg ''stopAtEntry'' of
              Some v \<Rightarrow> Some v
            | None \<Rightarrow>
                (case map_of (JSON_copy_properties ?settings) ''stopAtEntry'' of
                   Some v \<Rightarrow>
                     if ''stopAtEntry'' \<noteq> ''console'' \<and> \<not> emptySetting v then Some v else None
                 | None \<Rightarrow> None)) = Some (JBool True)"
    by (simp add: emptySetting_def)
  from C1_settings_merged_unless_present_or_empty [of ?env ?cfg ?settings] h1 h2 h3 h4 h5 h6
  have "control (resolveDebugConfiguration ?env ?cfg) = Return ReturnsConfiguration"
    and "map_of (configuration (resolveDebugConfiguration ?env ?cfg)) ''stopAtEntry''
           = Some (JBool True)"
    unfolding v [symmetric] by blast+
  with h1 h2 h3 h4 h5 h6 show ?thesis
    by blast
qed


end
